theory Spec2Isabelle
  imports Complex_Main "HOL-Library.Sublist"
begin

section \<open>C arithmetic and library primitives used by the terminal UI\<close>

text \<open>
  The embedded sources are the two translation units of the ncurses front end that hold
  the progress model (speed estimator, progress panel, spinner) and the format table
  (viewport scrolling, shortcuts, interactive selection loop), with
  \<^verbatim>\<open>ui_handle_resize\<close> of \<^verbatim>\<open>terminal_ui.c\<close> and the structures declared in
  \<^verbatim>\<open>terminal_ui.h\<close>.

  C \<^verbatim>\<open>int\<close>, \<^verbatim>\<open>long long\<close> and \<^verbatim>\<open>time_t\<close> values are modelled as \<open>int\<close>: list
  indices, terminal rows, clock readings and byte counters stay far below the machine
  bounds.  Where the code converts between number types the conversion is written out:
  a \<^verbatim>\<open>double\<close> is the real number it denotes, every floating-point operation rounds
  to binary64, and a conversion of a \<^verbatim>\<open>double\<close> to an integer type is undefined when
  the value does not fit.
\<close>

text \<open>
  The outcome of a computation that C leaves undefined for some inputs (a conversion
  out of range, the use of a deleted window).
\<close>

datatype 'a c_result = Undefined | Result 'a

definition c_bind :: "'a c_result \<Rightarrow> ('a \<Rightarrow> 'b c_result) \<Rightarrow> 'b c_result" where
  "c_bind r f = (case r of Undefined \<Rightarrow> Undefined | Result v \<Rightarrow> f v)"

text \<open>The operators \<^verbatim>\<open>/\<close> and \<^verbatim>\<open>%\<close> of C on integers truncate towards zero.\<close>

definition c_div :: "int \<Rightarrow> int \<Rightarrow> int" where
  "c_div a b = (if (a < 0) = (b < 0) then \<bar>a\<bar> div \<bar>b\<bar> else - (\<bar>a\<bar> div \<bar>b\<bar>))"

definition c_rem :: "int \<Rightarrow> int \<Rightarrow> int" where
  "c_rem a b = sgn a * (\<bar>a\<bar> mod \<bar>b\<bar>)"

subsection \<open>Binary64 arithmetic\<close>

text \<open>The number of binary digits of a natural number.\<close>

fun bit_length :: "nat \<Rightarrow> nat" where
  "bit_length n = (if n = 0 then 0 else Suc (bit_length (n div 2)))"

declare bit_length.simps [simp del]

text \<open>Powers of two with an integer exponent.\<close>

definition pow2 :: "int \<Rightarrow> real" where
  "pow2 e = (if 0 \<le> e then 2 ^ nat e else 1 / 2 ^ nat (- e))"

text \<open>For \<open>x > 0\<close>: the exponent \<open>e\<close> with \<open>2\<^sup>e \<le> x < 2\<^sup>e\<^sup>+\<^sup>1\<close>.\<close>

definition binade :: "real \<Rightarrow> int" where
  "binade x =
     (if 1 \<le> x then int (bit_length (nat \<lfloor>x\<rfloor>)) - 1
      else
        let k = int (bit_length (nat \<lfloor>1 / x\<rfloor>)) - 1
        in if x = pow2 (- k) then - k else - k - 1)"

text \<open>The nearest integer, a tie going to the even one.\<close>

definition round_half_even :: "real \<Rightarrow> int" where
  "round_half_even x =
     (let f = \<lfloor>x\<rfloor>; r = x - real_of_int f
      in if r < 1 / 2 then f
         else if 1 / 2 < r then f + 1
         else if even f then f else f + 1)"

text \<open>
  The binary64 number nearest to a real number (53 significant bits, round to nearest,
  ties to even): the result of every floating-point operation of the code is the exact
  result rounded in this way.  The exponent range of the format is not modelled; the
  quotients and products of 64-bit counters stay between \<open>2\<^sup>-\<^sup>7\<^sup>0\<close> and \<open>2\<^sup>1\<^sup>4\<^sup>0\<close>.
\<close>

definition round_double :: "real \<Rightarrow> real" where
  "round_double x =
     (if x = 0 then 0
      else
        let q = pow2 (binade \<bar>x\<bar> - 52)
        in real_of_int (round_half_even (x / q)) * q)"

text \<open>The conversion \<^verbatim>\<open>(double) i\<close> of an integer.\<close>

definition double_of_int :: "int \<Rightarrow> real" where
  "double_of_int i = round_double (real_of_int i)"

text \<open>The value of a \<^verbatim>\<open>double\<close> without its fractional part.\<close>

definition c_trunc :: "real \<Rightarrow> int" where
  "c_trunc x = (if 0 \<le> x then \<lfloor>x\<rfloor> else \<lceil>x\<rceil>)"

text \<open>
  The casts \<^verbatim>\<open>(int) x\<close> and \<^verbatim>\<open>(long long) x\<close> of a \<^verbatim>\<open>double\<close>: the truncated value,
  undefined when it is not a value of the 32-bit or 64-bit type.
\<close>

definition int_of_double :: "real \<Rightarrow> int c_result" where
  "int_of_double x =
     (let n = c_trunc x in if - (2 ^ 31) \<le> n \<and> n < 2 ^ 31 then Result n else Undefined)"


text \<open>
  \<^verbatim>\<open>difftime (t1, t0)\<close>: the difference of two calendar times in seconds, as a
  \<^verbatim>\<open>double\<close>.
\<close>

definition difftime :: "int \<Rightarrow> int \<Rightarrow> real" where
  "difftime t1 t0 = double_of_int (t1 - t0)"

subsection \<open>Characters and strings\<close>

text \<open>The code of a character, as the \<^verbatim>\<open>int\<close> that \<^verbatim>\<open>wgetch\<close> delivers.\<close>

abbreviation ord :: "char \<Rightarrow> int" where
  "ord c \<equiv> of_char c"

text \<open>\<^verbatim>\<open>strstr (haystack, needle) != NULL\<close>: the needle occurs in the haystack.\<close>

fun strstr :: "string \<Rightarrow> string \<Rightarrow> bool" where
  "strstr [] needle = (needle = [])"
| "strstr (c # cs) needle = (prefix needle (c # cs) \<or> strstr cs needle)"

section \<open>Data model of \<^verbatim>\<open>terminal_ui.h\<close>\<close>

definition SPEED_SAMPLE_SIZE :: int where
  "SPEED_SAMPLE_SIZE = 10"

text \<open>
  \<^verbatim>\<open>UIState\<close>: the fields the modelled functions read.  \<open>content_rows\<close> and
  \<open>content_cols\<close> stand for \<^verbatim>\<open>getmaxy (content_window)\<close> and
  \<^verbatim>\<open>getmaxx (content_window)\<close>.  A \<^verbatim>\<open>UIState *\<close> that may be \<^verbatim>\<open>NULL\<close> is a
  \<open>UIState option\<close>.
\<close>

record UIState =
  ncurses_available :: bool
  colors_supported :: bool
  content_rows :: int
  content_cols :: int
  resize_pending :: bool
  shutdown_pending :: bool

text \<open>One entry of the ring buffer \<^verbatim>\<open>samples[SPEED_SAMPLE_SIZE]\<close>.\<close>

record sample =
  timestamp :: int
  bytes :: int

record DownloadProgress =
  downloaded_bytes :: int
  total_bytes :: int
  download_speed :: real
  start_time :: int
  estimated_completion :: int
  current_stage :: string
  samples :: "sample list"
  sample_index :: int
  last_update :: int

text \<open>\<^verbatim>\<open>DownloadProgress progress = { 0 };\<close> as in \<^verbatim>\<open>main\<close>.\<close>

definition zero_progress :: DownloadProgress where
  "zero_progress =
     \<lparr>downloaded_bytes = 0, total_bytes = 0, download_speed = 0, start_time = 0,
      estimated_completion = 0, current_stage = [],
      samples = replicate (nat SPEED_SAMPLE_SIZE) \<lparr>timestamp = 0, bytes = 0\<rparr>,
      sample_index = 0, last_update = 0\<rparr>"

text \<open>
  A format object of the JSON array: each field is present with the expected JSON type
  (\<open>Some\<close>) or not (\<open>None\<close>), which is what \<^verbatim>\<open>json_object_get\<close> followed by
  \<^verbatim>\<open>json_is_string\<close> / \<^verbatim>\<open>json_is_integer\<close> observes.
\<close>

record VariantDescriptor =
  format_id :: "string option"
  resolution :: "string option"
  ext :: "string option"
  filesize :: "int option"

text \<open>
  \<^verbatim>\<open>FormatListState\<close>.  \<open>formats = None\<close> is the \<^verbatim>\<open>NULL\<close> pointer of a state that
  has not been displayed yet; \<^verbatim>\<open>pad\<close> and \<^verbatim>\<open>pad_height\<close> are never touched by the
  code and are left out.
\<close>

record FormatListState =
  visible_start :: int
  visible_lines :: int
  selected_index :: int
  total_formats :: int
  formats :: "VariantDescriptor list option"

text \<open>\<^verbatim>\<open>FormatListState list_state = { 0 };\<close> as in \<^verbatim>\<open>main\<close>.\<close>

definition zero_list_state :: FormatListState where
  "zero_list_state =
     \<lparr>visible_start = 0, visible_lines = 0, selected_index = 0, total_formats = 0,
      formats = None\<rparr>"

text \<open>
  \<^verbatim>\<open>json_array_get (array, index)\<close>: \<^verbatim>\<open>NULL\<close> for a \<^verbatim>\<open>NULL\<close> array and for an
  index outside the array (a negative \<^verbatim>\<open>int\<close> becomes a huge \<^verbatim>\<open>size_t\<close>).
\<close>

definition json_array_get :: "VariantDescriptor list option \<Rightarrow> int \<Rightarrow> VariantDescriptor option" where
  "json_array_get array i =
     (case array of
        None \<Rightarrow> None
      | Some fs \<Rightarrow> if 0 \<le> i \<and> i < int (length fs) then Some (fs ! nat i) else None)"

section \<open>Progress model and speed estimator\<close>

text \<open>
  \<^verbatim>\<open>ui_calculate_speed\<close>.  The array reads \<^verbatim>\<open>samples[i]\<close> are in range whenever
  \<open>sample_index\<close> is in \<open>0..9\<close>, which \<^verbatim>\<open>ui_update_progress\<close> maintains.  The
  result is the \<^verbatim>\<open>double\<close> quotient \<^verbatim>\<open>(double) byte_diff / time_diff\<close>.
\<close>

definition ui_calculate_speed :: "DownloadProgress option \<Rightarrow> real" where
  "ui_calculate_speed progress =
     (case progress of
        None \<Rightarrow> 0
      | Some p \<Rightarrow>
          if sample_index p = 0 then 0
          else
            let oldest_idx = 0;
                newest_idx = c_rem (sample_index p - 1 + SPEED_SAMPLE_SIZE) SPEED_SAMPLE_SIZE;
                oldest = samples p ! nat oldest_idx;
                newest = samples p ! nat newest_idx
            in if timestamp oldest = 0 \<or> timestamp newest = 0 then 0
               else
                 let time_diff = difftime (timestamp newest) (timestamp oldest)
                 in if time_diff \<le> 0 then 0
                    else
                      let byte_diff = bytes newest - bytes oldest
                      in if byte_diff < 0 then 0
                         else round_double (double_of_int byte_diff / time_diff))"

text \<open>
  \<^verbatim>\<open>ui_update_progress (progress, downloaded, total)\<close>; \<open>now\<close> is the value that
  \<^verbatim>\<open>time (NULL)\<close> returns inside the call and \<open>total_size\<close> is the parameter
  \<^verbatim>\<open>total\<close>.  The structure is updated in place, so the model returns it.  The
  routine reads \<^verbatim>\<open>samples[progress->sample_index]\<close>, which lies outside the array when
  the cursor is not in \<open>0..9\<close>.  The
  estimate of the remaining seconds is \<^verbatim>\<open>(int) (remaining / progress->download_speed)\<close>:
  \<^verbatim>\<open>remaining\<close> is converted to \<^verbatim>\<open>double\<close>, the quotient is rounded to binary64
  and cast to \<^verbatim>\<open>int\<close>, which is undefined when the quotient is not below \<open>2\<^sup>3\<^sup>1\<close>.
\<close>

definition ui_update_progress ::
  "DownloadProgress option \<Rightarrow> int \<Rightarrow> int \<Rightarrow> int \<Rightarrow> DownloadProgress option c_result" where
  "ui_update_progress progress now downloaded total_size =
     (case progress of
        None \<Rightarrow> Result None
      | Some p0 \<Rightarrow>
          if sample_index p0 < 0 \<or> SPEED_SAMPLE_SIZE \<le> sample_index p0 then Undefined
          else
          let p1 = p0\<lparr>downloaded_bytes := downloaded, total_bytes := total_size\<rparr>;
              p2 = (if now \<noteq> timestamp (samples p1 ! nat (sample_index p1))
                    then
                      let i = c_rem (sample_index p1 + 1) SPEED_SAMPLE_SIZE
                      in p1\<lparr>sample_index := i,
                            samples := (samples p1)[nat i := \<lparr>timestamp = now, bytes = downloaded\<rparr>]\<rparr>
                    else p1);
              p3 = p2\<lparr>download_speed := ui_calculate_speed (Some p2)\<rparr>
          in if download_speed p3 > 0 \<and> total_size > downloaded
             then
               let remaining = total_size - downloaded
               in c_bind (int_of_double (round_double (double_of_int remaining / download_speed p3)))
                    (\<lambda>eta_seconds.
                       Result (Some (p3\<lparr>estimated_completion := now + eta_seconds,
                                         last_update := now\<rparr>)))
             else Result (Some (p3\<lparr>last_update := now\<rparr>)))"

text \<open>A further update of the structure that an update returned.\<close>

definition then_update ::
  "DownloadProgress option c_result \<Rightarrow> int \<Rightarrow> int \<Rightarrow> int \<Rightarrow> DownloadProgress option c_result" where
  "then_update r now downloaded total_size =
     c_bind r (\<lambda>progress. ui_update_progress progress now downloaded total_size)"

text \<open>The estimate that \<^verbatim>\<open>ui_calculate_speed\<close> returns for the structure an update returned.\<close>

definition speed_after :: "DownloadProgress option c_result \<Rightarrow> real c_result" where
  "speed_after r = c_bind r (\<lambda>progress. Result (ui_calculate_speed progress))"

section \<open>Rendering of the content window\<close>

text \<open>
  What a render routine puts into the content window, in drawing order.  \<open>Print y x c\<close>
  is a \<^verbatim>\<open>mvwprintw (win, y, x, ...)\<close> that curses carried out; \<open>Cells width filled
  percent\<close> is the body of a progress bar written at the cursor: \<open>filled\<close> block cells,
  blanks up to \<open>width\<close>, and the percentage printed with \<^verbatim>\<open>"] %3.0f%%"\<close>.  Colours
  and the text formatting of numbers are left out; a line carries the values that are
  formatted into it.
\<close>

datatype content =
    Title string
  | Stage string
  | Sizes int int
  | Bracket
  | Speed int
  | Eta int
  | Elapsed int
  | Spinner string char

datatype draw =
    Erase
  | Border
  | Print int int content
  | Cells int int real

text \<open>
  \<^verbatim>\<open>mvwprintw (win, y, x, ...)\<close> on the content window: curses moves the cursor first,
  and when the position lies outside the window the call fails and prints nothing.
\<close>

definition mvwprintw :: "UIState \<Rightarrow> int \<Rightarrow> int \<Rightarrow> content \<Rightarrow> draw list" where
  "mvwprintw st y x c =
     (if 0 \<le> y \<and> y < content_rows st \<and> 0 \<le> x \<and> x < content_cols st then [Print y x c] else [])"



text \<open>
  \<^verbatim>\<open>get_spinner_char (frame)\<close>: \<^verbatim>\<open>spinner[frame % 4]\<close>.  For a negative frame the
  index is negative and the read is outside the array; the model has \<open>None\<close> there.
\<close>

definition spinner :: "char list" where
  "spinner = [CHR ''|'', CHR ''/'', CHR ''-'', CHR 0x5C]"

definition get_spinner_char :: "int \<Rightarrow> char option" where
  "get_spinner_char frame =
     (let i = c_rem frame 4
      in if 0 \<le> i \<and> i < int (length spinner) then Some (spinner ! nat i) else None)"

text \<open>
  The column \<^verbatim>\<open>int x = (getmaxx (win) - strlen (message) - 4) / 2\<close> of the spinner
  line.  \<^verbatim>\<open>strlen\<close> is a \<^verbatim>\<open>size_t\<close>, so the difference and the division are taken in
  unsigned 64-bit arithmetic, and the result is converted to \<^verbatim>\<open>int\<close> by keeping its
  low 32 bits.
\<close>

definition spinner_column :: "int \<Rightarrow> nat \<Rightarrow> int" where
  "spinner_column cols len =
     (let u = (cols - int len - 4) mod 2 ^ 64;
          w = (u div 2) mod 2 ^ 32
      in if w < 2 ^ 31 then w else w - 2 ^ 32)"

text \<open>
  \<^verbatim>\<open>ui_show_indeterminate_progress (state, message, frame)\<close>; \<open>message\<close> is a string,
  not \<^verbatim>\<open>NULL\<close>.
\<close>

definition ui_show_indeterminate_progress ::
  "UIState option \<Rightarrow> string \<Rightarrow> int \<Rightarrow> draw list option c_result" where
  "ui_show_indeterminate_progress state message frame =
     (case state of
        None \<Rightarrow> Result None
      | Some st \<Rightarrow>
          if \<not> ncurses_available st then Result None
          else
            let title = mvwprintw st 0 2 (Title '' Processing '');
                y = c_div (content_rows st) 2;
                x = spinner_column (content_cols st) (length message)
            in (case get_spinner_char frame of
                  None \<Rightarrow> Undefined
                | Some c \<Rightarrow>
                    Result (Some ([Erase, Border] @ title @ mvwprintw st y x (Spinner message c)))))"

text \<open>The two rendering modes, read off a frame.\<close>

fun is_spinner :: "draw \<Rightarrow> bool" where
  "is_spinner (Print y x (Spinner m c)) = True"
| "is_spinner d = False"

fun is_bar :: "draw \<Rightarrow> bool" where
  "is_bar (Cells w f p) = True"
| "is_bar d = False"



section \<open>Format list, viewport and shortcuts\<close>

text \<open>
  \<^verbatim>\<open>ui_display_formats (state, formats, list_state)\<close>: the return code and the list
  state it leaves behind.  The table it draws is a function of that state and is not
  part of the model.  \<open>visible_lines\<close> is recomputed on every call from the height of
  the content window.
\<close>

definition ui_display_formats ::
  "UIState option \<Rightarrow> VariantDescriptor list option \<Rightarrow> FormatListState option
     \<Rightarrow> int \<times> FormatListState option" where
  "ui_display_formats state fmts list_state =
     (case state of
        None \<Rightarrow> (- 1, list_state)
      | Some st \<Rightarrow>
          (case fmts of
             None \<Rightarrow> (- 1, list_state)
           | Some fs \<Rightarrow>
               (case list_state of
                  None \<Rightarrow> (- 1, list_state)
                | Some ls0 \<Rightarrow>
                    if \<not> ncurses_available st then (- 1, list_state)
                    else
                      let ls1 = (if formats ls0 = None
                                 then ls0\<lparr>formats := Some fs, total_formats := int (length fs),
                                          selected_index := 0, visible_start := 0\<rparr>
                                 else ls0);
                          content_height = content_rows st;
                          ls2 = ls1\<lparr>visible_lines := content_height - 4\<rparr>
                      in (0, Some ls2))))"

text \<open>\<^verbatim>\<open>update_format_display (state, list_state)\<close>; both pointers are dereferenced unchecked.\<close>

definition update_format_display :: "UIState \<Rightarrow> FormatListState \<Rightarrow> FormatListState" where
  "update_format_display state list_state =
     (let ls1 = (if selected_index list_state < visible_start list_state
                 then list_state\<lparr>visible_start := selected_index list_state\<rparr>
                 else if selected_index list_state \<ge> visible_start list_state + visible_lines list_state
                 then list_state\<lparr>visible_start :=
                        selected_index list_state - visible_lines list_state + 1\<rparr>
                 else list_state)
      in case snd (ui_display_formats (Some state) (formats ls1) (Some ls1)) of
           Some ls2 \<Rightarrow> ls2
         | None \<Rightarrow> ls1)"

text \<open>
  The \<^verbatim>\<open>for\<close> loop of the \<^verbatim>\<open>'a'\<close> shortcut in \<^verbatim>\<open>handle_format_shortcut\<close>, from
  index \<open>i\<close> on: the first index whose resolution is missing, \<^verbatim>\<open>"N/A"\<close> or contains
  \<^verbatim>\<open>"audio"\<close>.
\<close>

function audio_scan :: "VariantDescriptor list option \<Rightarrow> int \<Rightarrow> int \<Rightarrow> int option" where
  "audio_scan fmts n i =
     (if i < n
      then
        let res = (case json_array_get fmts i of
                     None \<Rightarrow> ''N/A''
                   | Some f \<Rightarrow> (case resolution f of Some r \<Rightarrow> r | None \<Rightarrow> ''N/A''))
        in if res = ''N/A'' \<or> strstr res ''audio'' then Some i
           else audio_scan fmts n (i + 1)
      else None)"
  by pat_completeness auto
termination
  by (relation "measure (\<lambda>(fmts, n, i). nat (n - i))") auto

text \<open>\<^verbatim>\<open>handle_format_shortcut (ch, list_state)\<close>: the return value and the list state.\<close>

definition handle_format_shortcut :: "int \<Rightarrow> FormatListState \<Rightarrow> int \<times> FormatListState" where
  "handle_format_shortcut ch list_state =
     (if ch = ord CHR ''b'' \<or> ch = ord CHR ''B''
      then (1, list_state\<lparr>selected_index := 0\<rparr>)
      else if ch = ord CHR ''w'' \<or> ch = ord CHR ''W''
      then (1, list_state\<lparr>selected_index := total_formats list_state - 1\<rparr>)
      else if ch = ord CHR ''a'' \<or> ch = ord CHR ''A''
      then (case audio_scan (formats list_state) (total_formats list_state) 0 of
              Some i \<Rightarrow> (1, list_state\<lparr>selected_index := i\<rparr>)
            | None \<Rightarrow> (0, list_state))
      else if ch \<ge> ord CHR ''1'' \<and> ch \<le> ord CHR ''9''
      then
        let index = ch - ord CHR ''1''
        in if index < total_formats list_state
           then (1, list_state\<lparr>selected_index := index\<rparr>)
           else (0, list_state)
      else (0, list_state))"

section \<open>Interactive selection loop\<close>

text \<open>
  The key codes of \<^verbatim>\<open>ncurses.h\<close> that the loop dispatches on, with the values of that
  header; \<^verbatim>\<open>ERR\<close> is what \<^verbatim>\<open>wgetch\<close> returns when a timed read expires.
\<close>

definition ERR :: int where "ERR = - 1"
definition KEY_DOWN :: int where "KEY_DOWN = 258"
definition KEY_UP :: int where "KEY_UP = 259"
definition KEY_HOME :: int where "KEY_HOME = 262"
definition KEY_NPAGE :: int where "KEY_NPAGE = 338"
definition KEY_PPAGE :: int where "KEY_PPAGE = 339"
definition KEY_ENTER :: int where "KEY_ENTER = 343"
definition KEY_END :: int where "KEY_END = 360"

text \<open>
  The keyboard is the list of values that the successive \<^verbatim>\<open>wgetch\<close> calls return.  A
  read under \<^verbatim>\<open>wtimeout (win, 100)\<close> returns \<^verbatim>\<open>ERR\<close> when nothing is left; a
  blocking read (\<^verbatim>\<open>timeout (-1)\<close>) of an empty keyboard never returns, which the
  loop below reports as \<open>Waiting\<close>.
\<close>

fun wgetch_timed :: "int list \<Rightarrow> int \<times> int list" where
  "wgetch_timed [] = (ERR, [])"
| "wgetch_timed (c # cs) = (c, cs)"

text \<open>The bodies of the \<^verbatim>\<open>switch\<close> cases that move the selection.\<close>

definition key_up :: "UIState \<Rightarrow> FormatListState \<Rightarrow> FormatListState" where
  "key_up state list_state =
     (if selected_index list_state > 0
      then update_format_display state (list_state\<lparr>selected_index := selected_index list_state - 1\<rparr>)
      else list_state)"

definition key_down :: "UIState \<Rightarrow> FormatListState \<Rightarrow> FormatListState" where
  "key_down state list_state =
     (if selected_index list_state < total_formats list_state - 1
      then update_format_display state (list_state\<lparr>selected_index := selected_index list_state + 1\<rparr>)
      else list_state)"

definition key_ppage :: "UIState \<Rightarrow> FormatListState \<Rightarrow> FormatListState" where
  "key_ppage state list_state =
     (let ls1 = list_state\<lparr>selected_index := selected_index list_state - visible_lines list_state\<rparr>;
          ls2 = (if selected_index ls1 < 0 then ls1\<lparr>selected_index := 0\<rparr> else ls1)
      in update_format_display state ls2)"

definition key_npage :: "UIState \<Rightarrow> FormatListState \<Rightarrow> FormatListState" where
  "key_npage state list_state =
     (let ls1 = list_state\<lparr>selected_index := selected_index list_state + visible_lines list_state\<rparr>;
          ls2 = (if selected_index ls1 \<ge> total_formats ls1
                 then ls1\<lparr>selected_index := total_formats ls1 - 1\<rparr> else ls1)
      in update_format_display state ls2)"

definition key_home :: "UIState \<Rightarrow> FormatListState \<Rightarrow> FormatListState" where
  "key_home state list_state = update_format_display state (list_state\<lparr>selected_index := 0\<rparr>)"

definition key_end :: "UIState \<Rightarrow> FormatListState \<Rightarrow> FormatListState" where
  "key_end state list_state =
     update_format_display state (list_state\<lparr>selected_index := total_formats list_state - 1\<rparr>)"

text \<open>
  The Enter case: the \<^verbatim>\<open>format_id\<close> string of the selected entry, copied into fresh
  memory (\<^verbatim>\<open>malloc\<close> is taken to succeed), or \<^verbatim>\<open>NULL\<close> when the entry or its string
  identifier is missing.
\<close>

definition key_enter :: "FormatListState \<Rightarrow> string option" where
  "key_enter list_state =
     (case json_array_get (formats list_state) (selected_index list_state) of
        None \<Rightarrow> None
      | Some f \<Rightarrow> format_id f)"

text \<open>
  The case \<^verbatim>\<open>27\<close>: the reads after the escape byte run under the 100 ms timeout.  The
  result is the list state, the keyboard that is left, and the flag \<^verbatim>\<open>selecting\<close>.
\<close>

definition key_escape ::
  "UIState \<Rightarrow> FormatListState \<Rightarrow> int list \<Rightarrow> FormatListState \<times> int list \<times> bool" where
  "key_escape state list_state input =
     (case wgetch_timed input of
        (next_ch, in1) \<Rightarrow>
          if next_ch = ERR then (list_state, in1, False)
          else if next_ch = ord CHR ''[''
          then
            (case wgetch_timed in1 of
               (third_ch, in2) \<Rightarrow>
                 if third_ch = ord CHR ''A'' then (key_up state list_state, in2, True)
                 else if third_ch = ord CHR ''B'' then (key_down state list_state, in2, True)
                 else if third_ch = ord CHR ''C'' then (list_state, in2, True)
                 else if third_ch = ord CHR ''D'' then (list_state, in2, True)
                 else if third_ch = ord CHR ''5''
                 then
                   (case wgetch_timed in2 of
                      (c, in3) \<Rightarrow>
                        if c = ord CHR ''~'' then (key_ppage state list_state, in3, True)
                        else (list_state, in3, True))
                 else if third_ch = ord CHR ''6''
                 then
                   (case wgetch_timed in2 of
                      (c, in3) \<Rightarrow>
                        if c = ord CHR ''~'' then (key_npage state list_state, in3, True)
                        else (list_state, in3, True))
                 else (list_state, in2, True))
          else (list_state, in1, True))"

text \<open>
  One pass through the \<^verbatim>\<open>switch (ch)\<close> of \<^verbatim>\<open>ui_select_format_interactive\<close>: the
  list state, the keyboard that is left, \<^verbatim>\<open>selecting\<close> and \<^verbatim>\<open>selected_format\<close>.
\<close>

definition selection_switch ::
  "UIState \<Rightarrow> FormatListState \<Rightarrow> int \<Rightarrow> int list
     \<Rightarrow> FormatListState \<times> int list \<times> bool \<times> string option" where
  "selection_switch state list_state ch input =
     (if ch = KEY_UP then (key_up state list_state, input, True, None)
      else if ch = KEY_DOWN then (key_down state list_state, input, True, None)
      else if ch = KEY_PPAGE then (key_ppage state list_state, input, True, None)
      else if ch = KEY_NPAGE then (key_npage state list_state, input, True, None)
      else if ch = KEY_HOME then (key_home state list_state, input, True, None)
      else if ch = KEY_END then (key_end state list_state, input, True, None)
      else if ch = ord CHR 0x0A \<or> ch = ord CHR 0x0D \<or> ch = KEY_ENTER
      then (list_state, input, False, key_enter list_state)
      else if ch = 27
      then (case key_escape state list_state input of
              (ls, rest, selecting) \<Rightarrow> (ls, rest, selecting, None))
      else if ch = ord CHR ''q'' \<or> ch = ord CHR ''Q'' then (list_state, input, False, None)
      else
        (case handle_format_shortcut ch list_state of
           (handled, ls) \<Rightarrow>
             if handled \<noteq> 0 then (update_format_display state ls, input, True, None)
             else (ls, input, True, None)))"

text \<open>
  The asynchronous world of a selection session.  \<open>Read c\<close>: a \<^verbatim>\<open>wgetch\<close> call
  returns \<open>c\<close> (\<^verbatim>\<open>ERR\<close> for a timed read that expired).  \<open>Winch s\<close>: a \<^verbatim>\<open>SIGWINCH\<close>
  is delivered, the handler sets \<^verbatim>\<open>resize_pending\<close>, and from now on
  \<^verbatim>\<open>create_windows\<close> makes a content window of the size \<open>s\<close> (rows, columns) out of
  the terminal, or fails (\<open>None\<close>).  \<open>Interrupt\<close>: a \<^verbatim>\<open>SIGINT\<close> or \<^verbatim>\<open>SIGTERM\<close> is
  delivered and the handler sets \<^verbatim>\<open>shutdown_pending\<close>.  The handler is installed
  with \<^verbatim>\<open>SA_RESTART\<close>, so a signal does not end the read during which it arrives.
\<close>

type_synonym screen = "(int \<times> int) option"

datatype event =
    Read int
  | Winch screen
  | Interrupt

text \<open>
  \<^verbatim>\<open>ui_handle_resize (state)\<close>, with the content window that \<^verbatim>\<open>create_windows\<close>
  makes at this moment.  The routine deletes the windows before it creates the new
  ones and ignores the result of \<^verbatim>\<open>create_windows\<close>; when that fails the caller goes
  on with deleted windows.  The list state is not touched.
\<close>

definition ui_handle_resize :: "UIState \<Rightarrow> screen \<Rightarrow> UIState c_result" where
  "ui_handle_resize state scr =
     (if \<not> resize_pending state then Result state
      else
        (case scr of
           None \<Rightarrow> Undefined
         | Some (rows, cols) \<Rightarrow>
             Result (state\<lparr>content_rows := rows, content_cols := cols, resize_pending := False\<rparr>)))"

text \<open>
  The blocking \<^verbatim>\<open>wgetch\<close> at the head of a pass: the signals that arrive while it
  waits set their latches, the next key ends it.  \<open>None\<close>: no key ever arrives.
\<close>

fun wgetch :: "UIState \<Rightarrow> screen \<Rightarrow> event list \<Rightarrow> (UIState \<times> screen \<times> int \<times> event list) option" where
  "wgetch st scr [] = None"
| "wgetch st scr (Read c # es) = Some (st, scr, c, es)"
| "wgetch st scr (Winch s # es) = wgetch (st\<lparr>resize_pending := True\<rparr>) s es"
| "wgetch st scr (Interrupt # es) = wgetch (st\<lparr>shutdown_pending := True\<rparr>) scr es"

text \<open>The values that the reads of a list of events return, in order.\<close>

fun reads :: "event list \<Rightarrow> int list" where
  "reads [] = []"
| "reads (Read c # es) = c # reads es"
| "reads (Winch s # es) = reads es"
| "reads (Interrupt # es) = reads es"

text \<open>
  The events that are left when \<open>k\<close> further reads have been made, and the latches
  that the signals in between have set.
\<close>

fun after_reads :: "nat \<Rightarrow> UIState \<Rightarrow> screen \<Rightarrow> event list \<Rightarrow> UIState \<times> screen \<times> event list" where
  "after_reads 0 st scr es = (st, scr, es)"
| "after_reads (Suc k) st scr [] = (st, scr, [])"
| "after_reads (Suc k) st scr (Read c # es) = after_reads k st scr es"
| "after_reads (Suc k) st scr (Winch s # es) = after_reads (Suc k) (st\<lparr>resize_pending := True\<rparr>) s es"
| "after_reads (Suc k) st scr (Interrupt # es) = after_reads (Suc k) (st\<lparr>shutdown_pending := True\<rparr>) scr es"

text \<open>
  One pass through the body of the \<^verbatim>\<open>while\<close> loop of
  \<^verbatim>\<open>ui_select_format_interactive\<close>: \<^verbatim>\<open>ui_handle_resize\<close>, the blocking read, the
  \<^verbatim>\<open>switch\<close>.  The timed reads of the escape case take the values of the reads that
  follow; the windows keep the size they have at the head of the pass.
\<close>

datatype pass =
    Blocked
  | Lost
  | Stop "string option" FormatListState
  | Go UIState screen FormatListState "event list"

definition loop_pass :: "UIState \<Rightarrow> screen \<Rightarrow> FormatListState \<Rightarrow> event list \<Rightarrow> pass" where
  "loop_pass state scr list_state events =
     (case ui_handle_resize state scr of
        Undefined \<Rightarrow> Lost
      | Result st1 \<Rightarrow>
          (case wgetch st1 scr events of
             None \<Rightarrow> Blocked
           | Some (st2, scr2, ch, rest) \<Rightarrow>
               (case selection_switch st2 list_state ch (reads rest) of
                  (ls, left, selecting, selected_format) \<Rightarrow>
                    if selecting
                    then (case after_reads (length (reads rest) - length left) st2 scr2 rest of
                            (st3, scr3, rest') \<Rightarrow> Go st3 scr3 ls rest')
                    else Stop selected_format ls)))"

text \<open>
  What a call of \<^verbatim>\<open>ui_select_format_interactive\<close> comes to on given events:
  \<open>Returned r ls\<close> when it returns the pointer \<open>r\<close> (\<open>None\<close> is \<^verbatim>\<open>NULL\<close>) and leaves
  the list state \<open>ls\<close>; \<open>Waiting ls\<close> when no further key arrives and the loop sits in
  the blocking \<^verbatim>\<open>wgetch\<close> with list state \<open>ls\<close>; \<open>Windows_lost\<close> when a resize
  failed and the loop goes on with deleted windows.
\<close>

datatype selection =
    Waiting FormatListState
  | Returned "string option" "FormatListState option"
  | Windows_lost

text \<open>
  The \<^verbatim>\<open>while (selecting && !state->shutdown_pending)\<close> loop.  \<^verbatim>\<open>selected_format\<close>
  is \<^verbatim>\<open>NULL\<close> until the Enter case sets it, and that case ends the loop.
\<close>

function select_loop :: "UIState \<Rightarrow> screen \<Rightarrow> FormatListState \<Rightarrow> event list \<Rightarrow> selection" where
  "select_loop state scr list_state events =
     (if shutdown_pending state then Returned None (Some list_state)
      else
        (case loop_pass state scr list_state events of
           Blocked \<Rightarrow> Waiting list_state
         | Lost \<Rightarrow> Windows_lost
         | Stop selected_format ls \<Rightarrow> Returned selected_format (Some ls)
         | Go st scr' ls rest \<Rightarrow> select_loop st scr' ls rest))"
  by pat_completeness auto
termination
proof (relation "measure (\<lambda>(state, scr, list_state, events). length events)")
  show "wf (measure (\<lambda>(state, scr, list_state, events). length events))"
    by simp
next
  fix state :: UIState and scr :: screen and list_state :: FormatListState
    and events :: "event list" and st scr' ls rest
  assume go: "loop_pass state scr list_state events = Go st scr' ls rest"
  have w: "\<And>s c e a b ch r. wgetch s c e = Some (a, b, ch, r) \<Longrightarrow> length r < length e"
  proof -
    fix s c e a b ch r
    show "wgetch s c e = Some (a, b, ch, r) \<Longrightarrow> length r < length e"
      by (induction s c e rule: wgetch.induct) auto
  qed
  have ar: "\<And>k s c e. length (snd (snd (after_reads k s c e))) \<le> length e"
  proof -
    fix k s c e
    show "length (snd (snd (after_reads k s c e))) \<le> length e"
      by (induction k s c e rule: after_reads.induct) auto
  qed
  from go obtain st1 st2 scr2 ch r k where
    g: "wgetch st1 scr events = Some (st2, scr2, ch, r)" "after_reads k st2 scr2 r = (st, scr', rest)"
    by (auto simp: loop_pass_def split: c_result.splits option.splits prod.splits if_splits)
  have "length r < length events"
    using w g(1) by blast
  moreover have "length rest \<le> length r"
    using ar [of k st2 scr2 r] g(2) by simp
  ultimately have "length rest < length events"
    by simp
  then show "((st, scr', ls, rest), (state, scr, list_state, events))
      \<in> measure (\<lambda>(state, scr, list_state, events). length events)"
    by simp
qed

text \<open>
  \<^verbatim>\<open>ui_select_format_interactive (state, list_state)\<close> on given events; \<open>scr\<close> is the
  content window that \<^verbatim>\<open>create_windows\<close> makes of the terminal on entry.
\<close>

definition ui_select_format_interactive ::
  "UIState option \<Rightarrow> FormatListState option \<Rightarrow> screen \<Rightarrow> event list \<Rightarrow> selection" where
  "ui_select_format_interactive state list_state scr events =
     (case state of
        None \<Rightarrow> Returned None list_state
      | Some st \<Rightarrow>
          (case list_state of
             None \<Rightarrow> Returned None list_state
           | Some ls \<Rightarrow>
               if \<not> ncurses_available st then Returned None list_state
               else select_loop st scr ls events))"

section \<open>Properties of list states\<close>

text \<open>
  The viewport invariant of the format list: the selected row lies inside the viewport
  and inside the list.
\<close>

definition viewport_invariant :: "FormatListState \<Rightarrow> bool" where
  "viewport_invariant ls =
     (visible_start ls \<le> selected_index ls
      \<and> selected_index ls < visible_start ls + visible_lines ls
      \<and> 0 \<le> selected_index ls \<and> selected_index ls \<le> total_formats ls - 1)"

text \<open>
  A list state as \<^verbatim>\<open>ui_display_formats\<close> leaves it for the non-empty array \<open>fs\<close> on
  the terminal \<open>st\<close>.
\<close>

definition displayed :: "UIState \<Rightarrow> VariantDescriptor list \<Rightarrow> FormatListState \<Rightarrow> bool" where
  "displayed st fs ls =
     (ncurses_available st \<and> visible_lines ls = content_rows st - 4
      \<and> formats ls = Some fs \<and> fs \<noteq> [] \<and> total_formats ls = int (length fs))"

definition good :: "UIState \<Rightarrow> VariantDescriptor list \<Rightarrow> FormatListState \<Rightarrow> bool" where
  "good st fs ls = (displayed st fs ls \<and> viewport_invariant ls)"

text \<open>The list state a selection session ends with or waits in.\<close>

fun final_list_state :: "selection \<Rightarrow> FormatListState option" where
  "final_list_state (Waiting ls) = Some ls"
| "final_list_state (Returned r ls) = ls"
| "final_list_state Windows_lost = None"

text \<open>
  The list state that \<^verbatim>\<open>main\<close> hands to \<^verbatim>\<open>ui_select_format_interactive\<close>: a zeroed
  structure after the first \<^verbatim>\<open>ui_display_formats (&ui_state, formats, &list_state)\<close>.
\<close>

definition main_list_state :: "UIState \<Rightarrow> VariantDescriptor list \<Rightarrow> FormatListState" where
  "main_list_state st fs =
     (case snd (ui_display_formats (Some st) (Some fs) (Some zero_list_state)) of
        Some ls \<Rightarrow> ls
      | None \<Rightarrow> zero_list_state)"

text \<open>A resize signal among the events.\<close>

fun is_winch :: "event \<Rightarrow> bool" where
  "is_winch (Winch s) = True"
| "is_winch e = False"

text \<open>A field of the structure that an update returned.\<close>

definition field_after ::
  "(DownloadProgress \<Rightarrow> 'a) \<Rightarrow> DownloadProgress option c_result \<Rightarrow> 'a option c_result" where
  "field_after f r = c_bind r (\<lambda>progress. Result (map_option f progress))"

section \<open>Example inputs\<close>

text \<open>An 80 column terminal whose content window has 19 rows (a 24 row screen).\<close>

definition term80x24 :: UIState where
  "term80x24 =
     \<lparr>ncurses_available = True, colors_supported = True, content_rows = 19,
      content_cols = 80, resize_pending = False, shutdown_pending = False\<rparr>"

text \<open>
  A progress structure late in a download: the write cursor has wrapped around and
  stands at slot 1, slots 0 and 1 hold the samples of the seconds 10 and 11, and an
  earlier update left the estimate 77.
\<close>

definition warm_progress :: DownloadProgress where
  "warm_progress =
     zero_progress\<lparr>sample_index := 1, estimated_completion := 77,
       samples := (samples zero_progress)[0 := \<lparr>timestamp = 10, bytes = 0\<rparr>,
                                          1 := \<lparr>timestamp = 11, bytes = 1000\<rparr>]\<rparr>"

text \<open>
  The same with 7 bytes in the 3 seconds between the samples of slot 0 and slot 1.
\<close>

definition slow_progress :: DownloadProgress where
  "slow_progress =
     zero_progress\<lparr>sample_index := 1, estimated_completion := 77,
       samples := (samples zero_progress)[0 := \<lparr>timestamp = 10, bytes = 0\<rparr>,
                                          1 := \<lparr>timestamp = 13, bytes = 7\<rparr>]\<rparr>"

text \<open>
  The same with 5 bytes in those 3 seconds.
\<close>

definition brisk_progress :: DownloadProgress where
  "brisk_progress =
     zero_progress\<lparr>sample_index := 1, estimated_completion := 77,
       samples := (samples zero_progress)[0 := \<lparr>timestamp = 10, bytes = 0\<rparr>,
                                          1 := \<lparr>timestamp = 13, bytes = 5\<rparr>]\<rparr>"


text \<open>
  A 9 row screen: \<^verbatim>\<open>create_windows\<close> gives the content window
  \<open>term_height - 5 = 4\<close> rows.
\<close>

definition term80x9 :: UIState where
  "term80x9 = term80x24\<lparr>content_rows := 4\<rparr>"

definition fmt :: "string \<Rightarrow> string \<Rightarrow> VariantDescriptor" where
  "fmt i r = \<lparr>format_id = Some i, resolution = Some r, ext = Some ''mp4'', filesize = None\<rparr>"

definition two_formats :: "VariantDescriptor list" where
  "two_formats = [fmt ''22'' ''1280x720'', fmt ''18'' ''640x360'']"

definition five_formats :: "VariantDescriptor list" where
  "five_formats =
     [fmt ''137'' ''1920x1080'', fmt ''22'' ''1280x720'', fmt ''135'' ''854x480'',
      fmt ''18'' ''640x360'', fmt ''140'' ''audio only'']"

text \<open>
  A 6 row screen: the content window has \<open>term_height - 5 = 1\<close> row.
\<close>

definition term80x6 :: UIState where
  "term80x6 = term80x24\<lparr>content_rows := 1\<rparr>"

text \<open>The five-element list on the 24 row screen with the third entry selected.\<close>

definition third_selected :: FormatListState where
  "third_selected = (main_list_state term80x24 five_formats)\<lparr>selected_index := 2\<rparr>"

text \<open>Thirty formats, and the row that eleven arrow-down keys reach on the 24 row screen.\<close>

definition thirty_formats :: "VariantDescriptor list" where
  "thirty_formats = replicate 30 (fmt ''18'' ''640x360'')"

definition twelfth_selected :: FormatListState where
  "twelfth_selected = (main_list_state term80x24 thirty_formats)\<lparr>selected_index := 11\<rparr>"

section \<open>Spinner\<close>

lemma c_rem_nonneg: "0 \<le> a \<Longrightarrow> 0 < b \<Longrightarrow> c_rem a b = a mod b"
  by (cases "a = 0") (simp_all add: c_rem_def)

lemma c_rem_small: "0 \<le> a \<Longrightarrow> a < b \<Longrightarrow> c_rem a b = a"
  by (cases "a = 0") (simp_all add: c_rem_def)

lemma spinner_values:
  "get_spinner_char 0 = Some CHR ''|''" "get_spinner_char 1 = Some CHR ''/''"
  "get_spinner_char 2 = Some CHR ''-''" "get_spinner_char 3 = Some CHR 0x5C"
  by (simp_all add: get_spinner_char_def c_rem_def spinner_def)

text \<open>
  Claim C10.  For every non-negative frame number \<^verbatim>\<open>get_spinner_char\<close> returns one of
  the four characters bar, slash, dash and backslash, the frames 0 to 3 produce exactly these four, and
  the character of frame + 4 is the character of frame.
\<close>

theorem get_spinner_char_periodic:
  assumes "0 \<le> frame"
  shows "get_spinner_char frame \<in> {Some CHR ''|'', Some CHR ''/'', Some CHR ''-'', Some CHR 0x5C}
    \<and> get_spinner_char (frame + 4) = get_spinner_char frame
    \<and> get_spinner_char ` {0, 1, 2, 3} = {Some CHR ''|'', Some CHR ''/'', Some CHR ''-'', Some CHR 0x5C}"
proof -
  let ?i = "frame mod 4"
  have r: "c_rem frame 4 = ?i" "c_rem (frame + 4) 4 = ?i"
    using assms by (simp_all add: c_rem_nonneg)
  have "?i = 0 \<or> ?i = 1 \<or> ?i = 2 \<or> ?i = 3"
    by presburger
  then have "get_spinner_char frame \<in> {Some CHR ''|'', Some CHR ''/'', Some CHR ''-'', Some CHR 0x5C}"
    unfolding get_spinner_char_def r spinner_def by (auto simp: Let_def)
  moreover have "get_spinner_char (frame + 4) = get_spinner_char frame"
    unfolding get_spinner_char_def r ..
  moreover have "get_spinner_char ` {0, 1, 2, 3} = {Some CHR ''|'', Some CHR ''/'', Some CHR ''-'', Some CHR 0x5C}"
    by (simp add: spinner_values)
  ultimately show ?thesis by blast
qed

theorem get_spinner_char_periodic_witness:
  "(0::int) \<le> 6 \<and> get_spinner_char 6 = Some CHR ''-'' \<and> get_spinner_char (6 + 4) = get_spinner_char 6"
  using get_spinner_char_periodic [of 6]
  by (simp add: get_spinner_char_def c_rem_def spinner_def)

section \<open>Binary64 rounding\<close>

lemmas binary64 = round_double_def binade_def pow2_def round_half_even_def bit_length.simps
  double_of_int_def difftime_def Let_def

lemma round_double_zero [simp]: "round_double 0 = 0"
  by (simp add: round_double_def)

lemma pow2_pos: "0 < pow2 e"
  by (simp add: pow2_def)

lemma round_half_even_nonneg: "0 \<le> x \<Longrightarrow> 0 \<le> round_half_even x"
  by (simp add: round_half_even_def Let_def)

lemma round_double_nonneg: "0 \<le> x \<Longrightarrow> 0 \<le> round_double x"
proof (cases "x = 0")
  case True
  then show ?thesis by simp
next
  case False
  assume "0 \<le> x"
  then have "0 \<le> x / pow2 (binade \<bar>x\<bar> - 52)"
    using pow2_pos [of "binade \<bar>x\<bar> - 52"] by simp
  then have "0 \<le> round_half_even (x / pow2 (binade \<bar>x\<bar> - 52))"
    by (rule round_half_even_nonneg)
  then show ?thesis
    using False pow2_pos [of "binade \<bar>x\<bar> - 52"] by (simp add: round_double_def Let_def)
qed

text \<open>
  Two roundings of the code: \<open>7.0 / 3.0\<close> is \<open>2.3333333333333335\<close>, above 7/3, and
  dividing 35 by it gives \<open>14.999999999999998\<close>, which the cast truncates to 14.
\<close>

lemma round_double_examples:
  "round_double (7 / 3) = 5254199565265579 / 2251799813685248"
  "int_of_double (round_double (double_of_int 35 / round_double (double_of_int 7 / double_of_int 3)))
     = Result 14"
  "double_of_int 1000 = 1000"
  by (simp_all add: binary64 int_of_double_def c_trunc_def)







section \<open>Speed estimator\<close>

lemma ui_calculate_speed_nonneg: "0 \<le> ui_calculate_speed progress"
proof -
  have "0 \<le> round_double (double_of_int b / t)" if "0 \<le> b" "0 < t" for b and t :: real
    using that round_double_nonneg [of "real_of_int b"]
    by (intro round_double_nonneg) (simp add: double_of_int_def)
  then show ?thesis
    by (auto simp: ui_calculate_speed_def Let_def split: option.splits)
qed

lemma ui_calculate_speed_bytes_decrease:
  assumes "bytes (samples p ! nat (c_rem (sample_index p - 1 + SPEED_SAMPLE_SIZE) SPEED_SAMPLE_SIZE))
             < bytes (samples p ! 0)"
  shows "ui_calculate_speed (Some p) = 0"
  using assms by (simp add: ui_calculate_speed_def Let_def)

lemma speed_slot0_empty:
  "timestamp (samples p ! 0) = 0 \<Longrightarrow> ui_calculate_speed (Some p) = 0"
  by (simp add: ui_calculate_speed_def Let_def)

lemma calc_frame:
  "ui_calculate_speed (Some (p\<lparr>download_speed := s\<rparr>)) = ui_calculate_speed (Some p)"
  "ui_calculate_speed (Some (p\<lparr>estimated_completion := e\<rparr>)) = ui_calculate_speed (Some p)"
  "ui_calculate_speed (Some (p\<lparr>last_update := u\<rparr>)) = ui_calculate_speed (Some p)"
  "ui_calculate_speed (Some (p\<lparr>downloaded_bytes := d\<rparr>)) = ui_calculate_speed (Some p)"
  "ui_calculate_speed (Some (p\<lparr>total_bytes := n\<rparr>)) = ui_calculate_speed (Some p)"
  by (simp_all add: ui_calculate_speed_def)

lemma update_stalled:
  assumes "0 \<le> sample_index p" "sample_index p < SPEED_SAMPLE_SIZE"
    and "ui_calculate_speed (Some (p\<lparr>downloaded_bytes := d, total_bytes := n,
      sample_index := (if now \<noteq> timestamp (samples p ! nat (sample_index p))
                       then c_rem (sample_index p + 1) SPEED_SAMPLE_SIZE else sample_index p),
      samples := (if now \<noteq> timestamp (samples p ! nat (sample_index p))
                  then (samples p)[nat (c_rem (sample_index p + 1) SPEED_SAMPLE_SIZE) :=
                         \<lparr>timestamp = now, bytes = d\<rparr>]
                  else samples p)\<rparr>)) = 0"
  shows "\<exists>p'. ui_update_progress (Some p) now d n = Result (Some p')"
proof (cases "now \<noteq> timestamp (samples p ! nat (sample_index p))")
  case True
  with assms show ?thesis
    by (simp add: ui_update_progress_def Let_def calc_frame)
next
  case False
  with assms show ?thesis
    by (simp add: ui_update_progress_def Let_def calc_frame)
qed

lemma update_ring:
  assumes "ui_update_progress (Some p) now d n = Result (Some p')"
  shows "sample_index p' =
           (if now \<noteq> timestamp (samples p ! nat (sample_index p))
            then c_rem (sample_index p + 1) SPEED_SAMPLE_SIZE else sample_index p)"
    and "samples p' =
           (if now \<noteq> timestamp (samples p ! nat (sample_index p))
            then (samples p)[nat (c_rem (sample_index p + 1) SPEED_SAMPLE_SIZE) :=
                   \<lparr>timestamp = now, bytes = d\<rparr>]
            else samples p)"
  using assms
  by (auto simp: ui_update_progress_def Let_def c_bind_def int_of_double_def split: if_splits)

lemma update_keeps_slot0:
  assumes "0 \<le> sample_index p" "sample_index p < 9" "timestamp (samples p ! 0) = 0"
  shows "\<exists>p'. ui_update_progress (Some p) now d n = Result (Some p')
           \<and> samples p' ! 0 = samples p ! 0
           \<and> sample_index p \<le> sample_index p' \<and> sample_index p' \<le> sample_index p + 1"
proof -
  have r: "c_rem (sample_index p + 1) SPEED_SAMPLE_SIZE = sample_index p + 1"
    using assms(1,2) by (simp add: c_rem_small SPEED_SAMPLE_SIZE_def)
  have n0: "nat (sample_index p + 1) \<noteq> 0"
    using assms(1) by simp
  have rng: "0 \<le> sample_index p" "sample_index p < SPEED_SAMPLE_SIZE"
    using assms(1,2) by (simp_all add: SPEED_SAMPLE_SIZE_def)
  have "\<exists>p'. ui_update_progress (Some p) now d n = Result (Some p')"
    using n0 assms(3) by (intro update_stalled [OF rng] speed_slot0_empty) (simp add: r)
  then obtain p' where p': "ui_update_progress (Some p) now d n = Result (Some p')"
    by blast
  have "samples p' ! 0 = samples p ! 0"
    using n0 by (simp add: update_ring(2) [OF p'] r)
  moreover have "sample_index p \<le> sample_index p'" "sample_index p' \<le> sample_index p + 1"
    by (simp_all add: update_ring(1) [OF p'] r)
  ultimately show ?thesis
    using p' by blast
qed

text \<open>
  Whatever the clock readings and byte counts are, the estimate is 0 after the first
  and after the second update of a fresh structure: the first sample goes to slot 1,
  slot 0 keeps the timestamp 0, and \<^verbatim>\<open>ui_calculate_speed\<close> takes slot 0 as the oldest
  sample.
\<close>

lemma speed_first_two_updates:
  "speed_after (ui_update_progress (Some zero_progress) t1 b1 n1) = Result 0"
  "speed_after (then_update (ui_update_progress (Some zero_progress) t1 b1 n1) t2 b2 n2) = Result 0"
proof -
  have z: "0 \<le> sample_index zero_progress" "sample_index zero_progress < 9"
    "timestamp (samples zero_progress ! 0) = 0" "sample_index zero_progress = 0"
    by (simp_all add: zero_progress_def SPEED_SAMPLE_SIZE_def)
  from update_keeps_slot0 [OF z(1,2,3), of t1 b1 n1] z(3,4)
  obtain p1 where p1: "ui_update_progress (Some zero_progress) t1 b1 n1 = Result (Some p1)"
    and s1: "timestamp (samples p1 ! 0) = 0" "0 \<le> sample_index p1" "sample_index p1 < 9"
    by auto
  from update_keeps_slot0 [OF s1(2,3,1), of t2 b2 n2] s1(1)
  obtain p2 where p2: "ui_update_progress (Some p1) t2 b2 n2 = Result (Some p2)"
    and s2: "timestamp (samples p2 ! 0) = 0"
    by auto
  show "speed_after (ui_update_progress (Some zero_progress) t1 b1 n1) = Result 0"
    by (simp add: p1 s1 speed_after_def c_bind_def speed_slot0_empty)
  show "speed_after (then_update (ui_update_progress (Some zero_progress) t1 b1 n1) t2 b2 n2)
      = Result 0"
    by (simp add: p1 p2 s2 speed_after_def then_update_def c_bind_def speed_slot0_empty)
qed

text \<open>
  \<^verbatim>\<open>ui_calculate_speed\<close> on the layout it is written for (a cursor that points behind
  the newest sample, the oldest sample in slot 0): two samples one second and 1000
  bytes apart give 1000 bytes per second.  \<^verbatim>\<open>ui_update_progress\<close> never builds this
  layout from a fresh structure, since it advances the cursor before it writes.
\<close>

lemma speed_expected_layout:
  "ui_calculate_speed (Some (zero_progress\<lparr>sample_index := 2,
      samples := (samples zero_progress)[0 := \<lparr>timestamp = 1000, bytes = 0\<rparr>,
                                         1 := \<lparr>timestamp = 1001, bytes = 1000\<rparr>]\<rparr>)) = 1000"
  by (simp add: ui_calculate_speed_def zero_progress_def SPEED_SAMPLE_SIZE_def c_rem_def binary64)

text \<open>
  Claim C2.  The claim has the estimate 1000 after the two samples (t=0, bytes=0) and
  (t=1, bytes=1000) are fed through \<^verbatim>\<open>ui_update_progress\<close>.  The code returns 0 there,
  and also for the same two samples at the clock readings 1000 and 1001.
\<close>

theorem speed_after_two_samples:
  "speed_after (then_update (ui_update_progress (Some zero_progress) 0 0 5000) 1 1000 5000)
     = Result 0
   \<and> speed_after (then_update (ui_update_progress (Some zero_progress) 1000 0 5000) 1001 1000 5000)
     = Result 0"
  by (simp add: speed_after_def then_update_def c_bind_def ui_calculate_speed_def
      ui_update_progress_def zero_progress_def SPEED_SAMPLE_SIZE_def c_rem_def Let_def)

section \<open>Progress update\<close>

text \<open>
  Claim C7, as stated, fails.  The new estimate is not \<open>now\<close> plus the quotient
  \<open>(total - downloaded) / rate\<close>: the code divides in binary64 and casts the
  rounded quotient to \<^verbatim>\<open>int\<close>.  With the rate of \<open>brisk_progress\<close> (the double
  nearest to 5/3, which is larger than 5/3) and 5 bytes left the quotient is below 3, the
  rounded quotient is 3, and the stored estimate is \<open>14 + 3\<close> where the quotient gives
  \<open>14 + 2\<close> whole seconds.  With the rate of \<open>slow_progress\<close> (about 7/3 bytes per
  second) and \<open>10\<^sup>1\<^sup>3\<close> bytes left the quotient does not fit an \<^verbatim>\<open>int\<close>, and the
  cast, and with it the update, is undefined.
\<close>

theorem ui_update_progress_eta_counterexample:
  "field_after download_speed (ui_update_progress (Some brisk_progress) 14 0 5)
     = Result (Some (7505999378950827 / 4503599627370496))
   \<and> \<lfloor>real_of_int (5 - 0) / (7505999378950827 / 4503599627370496 :: real)\<rfloor> = 2
   \<and> field_after estimated_completion (ui_update_progress (Some brisk_progress) 14 0 5)
     = Result (Some (14 + 3))
   \<and> field_after download_speed (ui_update_progress (Some slow_progress) 14 0 35)
     = Result (Some (5254199565265579 / 2251799813685248))
   \<and> ui_update_progress (Some slow_progress) 14 0 (10 ^ 13) = Undefined"
  by (simp add: field_after_def c_bind_def ui_update_progress_def ui_calculate_speed_def
      brisk_progress_def slow_progress_def zero_progress_def SPEED_SAMPLE_SIZE_def c_rem_def
      int_of_double_def c_trunc_def binary64)

text \<open>
  Claim C7, amended.  An update of a structure whose cursor is in \<open>0..9\<close> stores both
  counters and the clock reading and leaves the start time and the stage label alone.
  Unless the clock reading equals the timestamp at the cursor, it advances the cursor
  (modulo 10) and writes the sample \<open>(now, downloaded)\<close> there.  It sets the speed to
  the estimate of the updated ring.  When that speed is positive and
  \<open>total_size > downloaded\<close>, the estimated completion becomes \<open>now\<close> plus the binary64
  quotient of \<open>total_size - downloaded\<close> and the speed, cut to a whole number, provided
  that number fits an \<^verbatim>\<open>int\<close> (otherwise the behaviour is undefined); in every other
  case the field keeps the value it had before the call.
\<close>

theorem ui_update_progress_eta:
  "ui_update_progress (Some p) now downloaded total_size =
     (if sample_index p < 0 \<or> SPEED_SAMPLE_SIZE \<le> sample_index p then Undefined
      else
        let fresh = (now \<noteq> timestamp (samples p ! nat (sample_index p)));
            i = (if fresh then c_rem (sample_index p + 1) SPEED_SAMPLE_SIZE else sample_index p);
            ring = (if fresh then (samples p)[nat i := \<lparr>timestamp = now, bytes = downloaded\<rparr>]
                    else samples p);
            rate = ui_calculate_speed (Some (p\<lparr>downloaded_bytes := downloaded, total_bytes := total_size,
                                             sample_index := i, samples := ring\<rparr>));
            eta = c_trunc (round_double (double_of_int (total_size - downloaded) / rate));
            updated = (\<lambda>estimate.
              \<lparr>downloaded_bytes = downloaded, total_bytes = total_size, download_speed = rate,
               start_time = start_time p, estimated_completion = estimate,
               current_stage = current_stage p, samples = ring, sample_index = i,
               last_update = now\<rparr>)
        in if rate > 0 \<and> total_size > downloaded
           then if - (2 ^ 31) \<le> eta \<and> eta < 2 ^ 31 then Result (Some (updated (now + eta)))
                else Undefined
           else Result (Some (updated (estimated_completion p))))"
proof -
  have literal: "\<lparr>downloaded_bytes = downloaded, total_bytes = total_size, download_speed = r,
       start_time = start_time p, estimated_completion = e, current_stage = current_stage p,
       samples = ring, sample_index = i, last_update = now\<rparr>
     = p\<lparr>downloaded_bytes := downloaded, total_bytes := total_size, download_speed := r,
         estimated_completion := e, samples := ring, sample_index := i, last_update := now\<rparr>"
    for r e ring i
    by (cases p) simp
  show ?thesis
    by (simp add: literal ui_update_progress_def Let_def c_bind_def int_of_double_def calc_frame)
qed

text \<open>
  Both cases occur: with a positive speed and bytes left the estimate moves (here to
  second 15), with nothing left or with speed 0 the old value (77, or the initial 0)
  stays.  A cursor outside the ring makes the first read of the routine undefined.
\<close>

lemma ui_update_progress_eta_examples:
  "field_after estimated_completion (ui_update_progress (Some warm_progress) 12 2000 5000)
     = Result (Some 15)"
  "field_after download_speed (ui_update_progress (Some warm_progress) 12 2000 5000)
     = Result (Some 1000)"
  "field_after estimated_completion (ui_update_progress (Some warm_progress) 12 5000 5000)
     = Result (Some 77)"
  "field_after estimated_completion (ui_update_progress (Some zero_progress) 12 2000 5000)
     = Result (Some 0)"
  "ui_update_progress (Some (zero_progress\<lparr>sample_index := 10\<rparr>)) 12 2000 5000 = Undefined"
  by (simp_all add: field_after_def c_bind_def ui_update_progress_def ui_calculate_speed_def
      warm_progress_def zero_progress_def SPEED_SAMPLE_SIZE_def c_rem_def
      int_of_double_def c_trunc_def binary64)

section \<open>Progress panel with an unknown total\<close>

lemma mvwprintw_no_bar [simp]:
  "filter is_bar (mvwprintw st y x c) = []" "\<not> list_ex is_bar (mvwprintw st y x c)"
  by (simp_all add: mvwprintw_def)

lemma mvwprintw_no_spinner [simp]:
  "\<not> list_ex is_spinner (mvwprintw st y x (Title t))"
  "\<not> list_ex is_spinner (mvwprintw st y x (Stage t))"
  "\<not> list_ex is_spinner (mvwprintw st y x (Sizes a b))"
  "\<not> list_ex is_spinner (mvwprintw st y x Bracket)"
  "\<not> list_ex is_spinner (mvwprintw st y x (Speed v))"
  "\<not> list_ex is_spinner (mvwprintw st y x (Eta v))"
  "\<not> list_ex is_spinner (mvwprintw st y x (Elapsed v))"
  by (simp_all add: mvwprintw_def)









text \<open>
  The spinner line of \<^verbatim>\<open>ui_show_indeterminate_progress\<close> is not drawn for every
  message: for a message of 77 characters on 80 columns the column
  \<open>(80 - 77 - 4) / 2\<close> is computed in \<^verbatim>\<open>size_t\<close> and becomes \<open>-1\<close> as an \<^verbatim>\<open>int\<close>, the
  cursor move fails, and only the border and the title are on the screen.
\<close>

lemma ui_show_indeterminate_progress_long_message:
  "ui_show_indeterminate_progress (Some term80x24) (replicate 77 CHR ''x'') 0
     = Result (Some [Erase, Border, Print 0 2 (Title '' Processing '')])"
  by (simp add: ui_show_indeterminate_progress_def term80x24_def spinner_column_def mvwprintw_def
      c_div_def spinner_values Let_def)




section \<open>Display and viewport update\<close>

lemma display_known:
  "ncurses_available st \<Longrightarrow> formats ls = Some fs \<Longrightarrow>
   ui_display_formats (Some st) (Some fs) (Some ls) = (0, Some (ls\<lparr>visible_lines := content_rows st - 4\<rparr>))"
  by (simp add: ui_display_formats_def Let_def)

lemma display_fresh:
  "ncurses_available st \<Longrightarrow> formats ls = None \<Longrightarrow>
   ui_display_formats (Some st) (Some fs) (Some ls) =
     (0, Some (ls\<lparr>formats := Some fs, total_formats := int (length fs), selected_index := 0,
                 visible_start := 0, visible_lines := content_rows st - 4\<rparr>))"
  by (simp add: ui_display_formats_def Let_def)

lemma display_refused:
  "\<not> ncurses_available st \<or> fmts = None \<Longrightarrow>
   ui_display_formats (Some st) fmts (Some ls) = (- 1, Some ls)"
  by (auto simp: ui_display_formats_def split: option.splits)

lemma update_format_display_eq:
  "update_format_display st ls =
     (let ls1 = (if selected_index ls < visible_start ls
                 then ls\<lparr>visible_start := selected_index ls\<rparr>
                 else if selected_index ls \<ge> visible_start ls + visible_lines ls
                 then ls\<lparr>visible_start := selected_index ls - visible_lines ls + 1\<rparr>
                 else ls)
      in if ncurses_available st \<and> formats ls \<noteq> None
         then ls1\<lparr>visible_lines := content_rows st - 4\<rparr> else ls1)"
proof (cases "ncurses_available st \<and> formats ls \<noteq> None")
  case True
  then obtain fs where fs: "formats ls = Some fs" by auto
  with True show ?thesis
    by (simp add: update_format_display_def Let_def display_known)
next
  case False
  then show ?thesis
    by (auto simp: update_format_display_def Let_def display_refused)
qed

lemma update_format_display_fields:
  "selected_index (update_format_display st ls) = selected_index ls"
  "total_formats (update_format_display st ls) = total_formats ls"
  "formats (update_format_display st ls) = formats ls"
  by (simp_all add: update_format_display_eq Let_def)

lemma update_format_display_good:
  assumes "displayed st fs ls" "5 \<le> content_rows st"
    "0 \<le> selected_index ls" "selected_index ls \<le> total_formats ls - 1"
  shows "displayed st fs (update_format_display st ls) \<and> viewport_invariant (update_format_display st ls)"
  using assms
  by (auto simp: update_format_display_eq Let_def displayed_def viewport_invariant_def)

lemma main_list_state_eq:
  "ncurses_available st \<Longrightarrow> main_list_state st fs =
     \<lparr>visible_start = 0, visible_lines = content_rows st - 4, selected_index = 0,
      total_formats = int (length fs), formats = Some fs\<rparr>"
  by (simp add: main_list_state_def display_fresh zero_list_state_def)

text \<open>
  Claim C6, as stated, fails: on a content window of 4 rows (a 9 row screen)
  \<^verbatim>\<open>ui_display_formats\<close> sets \<open>visible_lines\<close> to 0.
\<close>

theorem visible_lines_counterexample:
  "ui_display_formats (Some term80x9) (Some two_formats) (Some zero_list_state)
     = (0, Some \<lparr>visible_start = 0, visible_lines = 0, selected_index = 0, total_formats = 2,
                  formats = Some two_formats\<rparr>)"
  by (simp add: display_fresh term80x9_def term80x24_def zero_list_state_def two_formats_def)

text \<open>
  Claim C6, amended.  Every successful render sets the viewport line count to the
  height of the content window minus 4, with no lower bound; it is at least 1 exactly
  when the content window has 5 rows or more.
\<close>

theorem visible_lines_from_height:
  assumes "ncurses_available st"
  shows "\<exists>ls'. ui_display_formats (Some st) (Some fs) (Some ls) = (0, Some ls')
           \<and> visible_lines ls' = content_rows st - 4
           \<and> (1 \<le> visible_lines ls') = (5 \<le> content_rows st)"
  using assms by (cases "formats ls") (auto simp: ui_display_formats_def Let_def)

theorem visible_lines_from_height_witness:
  "ncurses_available term80x24
   \<and> ui_display_formats (Some term80x24) (Some five_formats) (Some zero_list_state)
       = (0, Some \<lparr>visible_start = 0, visible_lines = 15, selected_index = 0, total_formats = 5,
                    formats = Some five_formats\<rparr>)"
  using visible_lines_from_height [of term80x24 five_formats zero_list_state]
  by (simp add: display_fresh term80x24_def zero_list_state_def five_formats_def)

section \<open>Digit shortcuts\<close>

text \<open>
  Claim C9.  A digit key \<^verbatim>\<open>'1'\<close> to \<^verbatim>\<open>'9'\<close> selects the zero-based index
  \<open>digit - 1\<close> when that index is below \<open>total_formats\<close>; otherwise
  \<^verbatim>\<open>handle_format_shortcut\<close> reports it as not handled, the list state is unchanged
  and the loop goes on selecting.  The redraw after a handled key keeps the index.
\<close>

theorem digit_shortcut:
  assumes "ord CHR ''1'' \<le> ch" "ch \<le> ord CHR ''9''"
  shows "handle_format_shortcut ch ls =
           (if ch - ord CHR ''1'' < total_formats ls
            then (1, ls\<lparr>selected_index := ch - ord CHR ''1''\<rparr>) else (0, ls))
     \<and> selection_switch st ls ch inp =
           (if ch - ord CHR ''1'' < total_formats ls
            then (update_format_display st (ls\<lparr>selected_index := ch - ord CHR ''1''\<rparr>), inp, True, None)
            else (ls, inp, True, None))
     \<and> selected_index (update_format_display st (ls\<lparr>selected_index := ch - ord CHR ''1''\<rparr>))
           = ch - ord CHR ''1''"
proof -
  have h: "handle_format_shortcut ch ls =
           (if ch - ord CHR ''1'' < total_formats ls
            then (1, ls\<lparr>selected_index := ch - ord CHR ''1''\<rparr>) else (0, ls))"
    using assms by (auto simp: handle_format_shortcut_def Let_def)
  have "selection_switch st ls ch inp =
           (if ch - ord CHR ''1'' < total_formats ls
            then (update_format_display st (ls\<lparr>selected_index := ch - ord CHR ''1''\<rparr>), inp, True, None)
            else (ls, inp, True, None))"
    unfolding selection_switch_def h using assms
    by (simp add: KEY_UP_def KEY_DOWN_def KEY_PPAGE_def KEY_NPAGE_def KEY_HOME_def KEY_END_def
        KEY_ENTER_def)
  with h show ?thesis
    by (simp add: update_format_display_fields)
qed

text \<open>On the five-element list, \<^verbatim>\<open>'5'\<close> selects index 4 and \<^verbatim>\<open>'9'\<close> changes nothing.\<close>

theorem digit_shortcut_witness:
  "ord CHR ''1'' \<le> ord CHR ''5'' \<and> ord CHR ''5'' \<le> ord CHR ''9''
   \<and> selected_index (fst (selection_switch term80x24 (main_list_state term80x24 five_formats)
         (ord CHR ''5'') [])) = 4
   \<and> ord CHR ''1'' \<le> ord CHR ''9'' \<and> ord CHR ''9'' \<le> ord CHR ''9''
   \<and> selection_switch term80x24 (main_list_state term80x24 five_formats) (ord CHR ''9'') []
       = (main_list_state term80x24 five_formats, [], True, None)"
  using digit_shortcut [of "ord CHR ''5''" "main_list_state term80x24 five_formats" term80x24 "[]"]
    digit_shortcut [of "ord CHR ''9''" "main_list_state term80x24 five_formats" term80x24 "[]"]
  by (simp add: main_list_state_eq term80x24_def five_formats_def)

section \<open>The viewport invariant along a selection session\<close>

lemmas key_codes = ERR_def KEY_UP_def KEY_DOWN_def KEY_PPAGE_def KEY_NPAGE_def KEY_HOME_def
  KEY_END_def KEY_ENTER_def

lemma audio_scan_range: "audio_scan fmts n i = Some j \<Longrightarrow> i \<le> j \<and> j < n"
proof (induction fmts n i rule: audio_scan.induct)
  case (1 fmts n i)
  show ?case
  proof (cases "i < n")
    case False
    with "1.prems" show ?thesis by simp
  next
    case True
    let ?res = "case json_array_get fmts i of None \<Rightarrow> ''N/A''
        | Some f \<Rightarrow> (case resolution f of Some r \<Rightarrow> r | None \<Rightarrow> ''N/A'')"
    show ?thesis
    proof (cases "?res = ''N/A'' \<or> strstr ?res ''audio''")
      case hit: True
      with True "1.prems" have "j = i"
        by (simp add: Let_def)
      with True show ?thesis by simp
    next
      case miss: False
      with True "1.prems" have "audio_scan fmts n (i + 1) = Some j"
        by (simp add: Let_def)
      with "1.IH" [OF True refl miss] show ?thesis by simp
    qed
  qed
qed

lemma displayed_selected [simp]:
  "displayed st fs (ls\<lparr>selected_index := i\<rparr>) = displayed st fs ls"
  by (simp add: displayed_def)

lemma good_select:
  assumes "good st fs ls" "5 \<le> content_rows st" "0 \<le> i" "i \<le> total_formats ls - 1"
  shows "good st fs (update_format_display st (ls\<lparr>selected_index := i\<rparr>))"
proof -
  have "displayed st fs (ls\<lparr>selected_index := i\<rparr>)"
    using assms(1) by (simp add: good_def)
  from update_format_display_good [OF this assms(2)] assms(3,4)
  show ?thesis by (simp add: good_def)
qed

lemma good_range: "good st fs ls \<Longrightarrow> 0 \<le> selected_index ls \<and> selected_index ls \<le> total_formats ls - 1"
  by (simp add: good_def viewport_invariant_def)

lemma good_key_up: "good st fs ls \<Longrightarrow> 5 \<le> content_rows st \<Longrightarrow> good st fs (key_up st ls)"
  unfolding key_up_def using good_range [of st fs ls]
  by (auto intro!: good_select)

lemma good_key_down: "good st fs ls \<Longrightarrow> 5 \<le> content_rows st \<Longrightarrow> good st fs (key_down st ls)"
  unfolding key_down_def using good_range [of st fs ls]
  by (auto intro!: good_select)

lemma good_nonempty: "good st fs ls \<Longrightarrow> 1 \<le> total_formats ls"
  by (cases fs) (auto simp: good_def displayed_def)

lemma good_lines: "good st fs ls \<Longrightarrow> 5 \<le> content_rows st \<Longrightarrow> 1 \<le> visible_lines ls"
  by (simp add: good_def displayed_def)

lemma good_key_ppage: "good st fs ls \<Longrightarrow> 5 \<le> content_rows st \<Longrightarrow> good st fs (key_ppage st ls)"
  unfolding key_ppage_def Let_def using good_range [of st fs ls] good_lines [of st fs ls]
  by (auto intro!: good_select)

lemma good_key_npage: "good st fs ls \<Longrightarrow> 5 \<le> content_rows st \<Longrightarrow> good st fs (key_npage st ls)"
  unfolding key_npage_def Let_def using good_range [of st fs ls] good_lines [of st fs ls]
  by (auto intro!: good_select)

lemma good_key_home: "good st fs ls \<Longrightarrow> 5 \<le> content_rows st \<Longrightarrow> good st fs (key_home st ls)"
  unfolding key_home_def using good_nonempty [of st fs ls]
  by (auto intro!: good_select)

lemma good_key_end: "good st fs ls \<Longrightarrow> 5 \<le> content_rows st \<Longrightarrow> good st fs (key_end st ls)"
  unfolding key_end_def using good_nonempty [of st fs ls]
  by (auto intro!: good_select)

lemma good_shortcut:
  assumes "good st fs ls" "5 \<le> content_rows st"
  shows "good st fs (case handle_format_shortcut ch ls of
           (handled, ls') \<Rightarrow> if handled \<noteq> 0 then update_format_display st ls' else ls')"
proof -
  have n: "1 \<le> total_formats ls"
    by (rule good_nonempty [OF assms(1)])
  have sel: "\<And>i. 0 \<le> i \<Longrightarrow> i < total_formats ls
      \<Longrightarrow> good st fs (update_format_display st (ls\<lparr>selected_index := i\<rparr>))"
    using good_select [OF assms] by simp
  have scan: "\<And>i. audio_scan (formats ls) (total_formats ls) 0 = Some i
      \<Longrightarrow> good st fs (update_format_display st (ls\<lparr>selected_index := i\<rparr>))"
    using audio_scan_range sel by blast
  show ?thesis
    unfolding handle_format_shortcut_def Let_def
    using n by (simp add: sel scan assms(1) split: option.split)
qed

lemma good_key_escape:
  assumes "good st fs ls" "5 \<le> content_rows st"
  shows "good st fs (fst (key_escape st ls inp))"
  unfolding key_escape_def
  by (simp add: assms(1) good_key_up [OF assms] good_key_down [OF assms]
      good_key_ppage [OF assms] good_key_npage [OF assms] split: prod.split)

lemma good_selection_switch:
  assumes "good st fs ls" "5 \<le> content_rows st"
  shows "good st fs (fst (selection_switch st ls ch inp))"
proof -
  have esc: "\<And>a b c. key_escape st ls inp = (a, b, c) \<Longrightarrow> good st fs a"
    using good_key_escape [OF assms, of inp] by simp
  have sc: "\<And>h l. handle_format_shortcut ch ls = (h, l)
      \<Longrightarrow> good st fs (if h \<noteq> 0 then update_format_display st l else l)"
    using good_shortcut [OF assms, of ch] by simp
  show ?thesis
    unfolding selection_switch_def
    by (simp add: assms(1) good_key_up [OF assms] good_key_down [OF assms]
        good_key_ppage [OF assms] good_key_npage [OF assms] good_key_home [OF assms]
        good_key_end [OF assms] esc split: prod.split) (use sc in auto)
qed

text \<open>
  The list state is displayed on a window of \<open>content_rows\<close> rows; a terminal state that
  differs in the signal latches only displays it as well.
\<close>

lemma good_same_window:
  assumes "good st fs ls" "ncurses_available st' = ncurses_available st"
    "content_rows st' = content_rows st"
  shows "good st' fs ls"
  using assms by (simp add: good_def displayed_def)

lemma wgetch_same_window:
  assumes "wgetch st scr es = Some (st', scr', ch, rest)" "\<not> list_ex is_winch es"
  shows "ncurses_available st' = ncurses_available st \<and> content_rows st' = content_rows st
    \<and> resize_pending st' = resize_pending st \<and> \<not> list_ex is_winch rest"
  using assms by (induction st scr es rule: wgetch.induct) auto

lemma after_reads_same_window:
  assumes "after_reads k st scr es = (st', scr', rest)" "\<not> list_ex is_winch es"
  shows "ncurses_available st' = ncurses_available st \<and> content_rows st' = content_rows st
    \<and> resize_pending st' = resize_pending st \<and> \<not> list_ex is_winch rest"
  using assms by (induction k st scr es rule: after_reads.induct) auto

lemma good_loop_pass:
  assumes "good st fs ls" "5 \<le> content_rows st" "\<not> resize_pending st"
    "\<not> list_ex is_winch events"
  shows "case loop_pass st scr ls events of
           Blocked \<Rightarrow> True
         | Lost \<Rightarrow> False
         | Stop selected_format ls' \<Rightarrow> good st fs ls'
         | Go st' scr' ls' rest \<Rightarrow>
             good st' fs ls' \<and> ncurses_available st' = ncurses_available st
             \<and> content_rows st' = content_rows st \<and> \<not> resize_pending st'
             \<and> \<not> list_ex is_winch rest"
proof (cases "wgetch st scr events")
  case None
  with assms(3) show ?thesis
    by (simp add: loop_pass_def ui_handle_resize_def)
next
  case (Some w)
  then obtain st2 scr2 ch rest where w: "wgetch st scr events = Some (st2, scr2, ch, rest)"
    by (cases w) auto
  note w2 = wgetch_same_window [OF w assms(4)]
  have g2: "good st2 fs ls" "5 \<le> content_rows st2"
    using good_same_window [OF assms(1)] w2 assms(2) by simp_all
  obtain ls' left selecting selected_format where
    sw: "selection_switch st2 ls ch (reads rest) = (ls', left, selecting, selected_format)"
    by (cases "selection_switch st2 ls ch (reads rest)")
  have g: "good st2 fs ls'"
    using good_selection_switch [OF g2, of ch "reads rest"] sw by simp
  show ?thesis
  proof (cases selecting)
    case False
    with assms(3) w sw good_same_window [OF g] w2 show ?thesis
      by (simp add: loop_pass_def ui_handle_resize_def)
  next
    case True
    obtain st3 scr3 rest' where
      ar: "after_reads (length (reads rest) - length left) st2 scr2 rest = (st3, scr3, rest')"
      by (cases "after_reads (length (reads rest) - length left) st2 scr2 rest")
    from after_reads_same_window [OF ar] w2
    have a3: "ncurses_available st3 = ncurses_available st2" "content_rows st3 = content_rows st2"
      "resize_pending st3 = resize_pending st2" "\<not> list_ex is_winch rest'"
      by simp_all
    have "good st3 fs ls'"
      using good_same_window [OF g a3(1,2)] .
    with assms(3) w sw True ar a3 w2 show ?thesis
      by (simp add: loop_pass_def ui_handle_resize_def)
  qed
qed

lemma good_select_loop:
  assumes "good st fs ls" "5 \<le> content_rows st" "\<not> resize_pending st"
    "\<not> list_ex is_winch events"
  shows "\<exists>ls'. final_list_state (select_loop st scr ls events) = Some ls' \<and> good st fs ls'"
  using assms
proof (induction st scr ls events rule: select_loop.induct)
  case (1 state scr list_state events)
  note pass = good_loop_pass [OF "1.prems", of scr]
  show ?case
  proof (cases "shutdown_pending state")
    case True
    with "1.prems" show ?thesis by simp
  next
    case False
    show ?thesis
    proof (cases "loop_pass state scr list_state events")
      case Blocked
      with False "1.prems" show ?thesis by simp
    next
      case Lost
      with pass show ?thesis by simp
    next
      case (Stop selected_format ls')
      with False pass show ?thesis by simp
    next
      case (Go st' scr' ls' rest)
      with pass have g: "good st' fs ls'" "ncurses_available st' = ncurses_available state"
        "content_rows st' = content_rows state" "\<not> resize_pending st'"
        "\<not> list_ex is_winch rest"
        by simp_all
      have "5 \<le> content_rows st'"
        using g(3) "1.prems"(2) by simp
      from "1.IH" [OF False Go g(1) this g(4,5)]
      obtain ls'' where l: "final_list_state (select_loop st' scr' ls' rest) = Some ls''"
        "good st' fs ls''"
        by blast
      have "good state fs ls''"
        using good_same_window [OF l(2)] g(2,3) by simp
      with l(1) False Go show ?thesis by simp
    qed
  qed
qed

lemma good_main_list_state:
  assumes "ncurses_available st" "5 \<le> content_rows st" "fs \<noteq> []"
  shows "good st fs (main_list_state st fs)"
proof -
  have "1 \<le> int (length fs)"
    using assms(3) by (cases fs) simp_all
  then show ?thesis
    using assms by (simp add: main_list_state_eq good_def displayed_def viewport_invariant_def)
qed


text \<open>
  Claim C1, as stated, fails, for two reasons.  On a content window of 4 rows the
  viewport has 0 lines, and after one arrow-down on a list of two formats the viewport
  starts at row 2 while row 1 is selected.  On a content window of 19 rows that shrinks
  to 9 rows after eleven arrow-down keys, the second arrow-down after the resize
  leaves row 13 selected in a viewport of 5 lines that starts at row 0: the viewport
  start is moved with the line count of the old window, and the line count is
  recomputed afterwards.
\<close>

theorem viewport_invariant_counterexample:
  "ui_select_format_interactive (Some term80x9) (Some (main_list_state term80x9 two_formats))
       (Some (4, 80)) [Read KEY_DOWN]
     = Waiting \<lparr>visible_start = 2, visible_lines = 0, selected_index = 1, total_formats = 2,
                formats = Some two_formats\<rparr>
   \<and> \<not> viewport_invariant \<lparr>visible_start = 2, visible_lines = 0, selected_index = 1,
                total_formats = 2, formats = Some two_formats\<rparr>
   \<and> ui_select_format_interactive (Some term80x24) (Some (main_list_state term80x24 thirty_formats))
       (Some (19, 80))
       (replicate 11 (Read KEY_DOWN) @ [Winch (Some (9, 80)), Read KEY_DOWN, Read KEY_DOWN])
     = Waiting \<lparr>visible_start = 0, visible_lines = 5, selected_index = 13, total_formats = 30,
                formats = Some thirty_formats\<rparr>
   \<and> \<not> viewport_invariant \<lparr>visible_start = 0, visible_lines = 5, selected_index = 13,
                total_formats = 30, formats = Some thirty_formats\<rparr>"
proof -
  have n: "replicate 11 e = [e, e, e, e, e, e, e, e, e, e, e]" for e :: event
    by (simp add: numeral_eq_Suc)
  have l: "length thirty_formats = 30" "length two_formats = 2"
    by (simp_all add: thirty_formats_def two_formats_def)
  show ?thesis
    by (simp add: n l ui_select_format_interactive_def main_list_state_eq term80x9_def
        term80x24_def loop_pass_def ui_handle_resize_def selection_switch_def key_codes
        key_down_def update_format_display_eq viewport_invariant_def)
qed

text \<open>
  The same when the resize is pending on entry: row 11 of 30 is selected on 19 rows,
  the loop makes the 9 row window before it reads the arrow-down, and row 12 is left
  selected in a viewport of 5 lines that starts at row 0.
\<close>

lemma viewport_invariant_resize_example:
  "ui_select_format_interactive (Some (term80x24\<lparr>resize_pending := True\<rparr>))
       (Some twelfth_selected) (Some (9, 80)) [Read KEY_DOWN]
     = Waiting \<lparr>visible_start = 0, visible_lines = 5, selected_index = 12, total_formats = 30,
                formats = Some thirty_formats\<rparr>"
proof -
  have l: "length thirty_formats = 30"
    by (simp add: thirty_formats_def)
  show ?thesis
    by (simp add: l twelfth_selected_def ui_select_format_interactive_def main_list_state_eq
        term80x24_def loop_pass_def ui_handle_resize_def selection_switch_def key_codes
        key_down_def update_format_display_eq)
qed

text \<open>
  Claim C1, amended.  On a terminal whose content window has at least 5 rows (so that
  the viewport has at least one line), with no resize pending on entry and none
  arriving during the session, for every non-empty format list and every sequence of
  keys and interrupt signals, the list state that the selection loop holds after the
  first \<open>n\<close> events, or returns with, satisfies
  \<open>visible_start \<le> selected_index < visible_start + visible_lines\<close> and
  \<open>0 \<le> selected_index \<le> total_formats - 1\<close>; \<open>n\<close> is arbitrary, so the invariant holds
  after every action.
\<close>

theorem viewport_invariant_after_keys:
  assumes "ncurses_available st" "\<not> resize_pending st" "5 \<le> content_rows st" "fs \<noteq> []"
    "\<not> list_ex is_winch events"
  shows "\<exists>ls. final_list_state
           (ui_select_format_interactive (Some st) (Some (main_list_state st fs)) scr
              (take n events)) = Some ls
         \<and> viewport_invariant ls"
proof -
  have "\<not> list_ex is_winch (take n events)"
    using assms(5) by (auto simp: list_ex_iff dest: in_set_takeD)
  from good_select_loop [OF good_main_list_state [OF assms(1,3,4)] assms(3,2) this, of scr]
  show ?thesis
    using assms(1) by (auto simp: ui_select_format_interactive_def good_def)
qed

theorem viewport_invariant_after_keys_witness:
  "ncurses_available term80x24 \<and> \<not> resize_pending term80x24 \<and> 5 \<le> content_rows term80x24
   \<and> five_formats \<noteq> []
   \<and> \<not> list_ex is_winch [Read KEY_DOWN, Read KEY_END, Interrupt, Read KEY_UP]
   \<and> ui_select_format_interactive (Some term80x24) (Some (main_list_state term80x24 five_formats))
        (Some (19, 80)) (take 2 [Read KEY_DOWN, Read KEY_END, Interrupt, Read KEY_UP]) =
       Waiting \<lparr>visible_start = 0, visible_lines = 15, selected_index = 4, total_formats = 5,
                formats = Some five_formats\<rparr>
   \<and> viewport_invariant \<lparr>visible_start = 0, visible_lines = 15, selected_index = 4, total_formats = 5,
                formats = Some five_formats\<rparr>"
proof -
  have e: "ui_select_format_interactive (Some term80x24) (Some (main_list_state term80x24 five_formats))
        (Some (19, 80)) (take 2 [Read KEY_DOWN, Read KEY_END, Interrupt, Read KEY_UP]) =
       Waiting \<lparr>visible_start = 0, visible_lines = 15, selected_index = 4, total_formats = 5,
                formats = Some five_formats\<rparr>"
    by (simp add: ui_select_format_interactive_def main_list_state_eq term80x24_def
      five_formats_def loop_pass_def ui_handle_resize_def selection_switch_def key_codes
      key_down_def key_up_def key_end_def update_format_display_eq)
  have h: "ncurses_available term80x24" "\<not> resize_pending term80x24" "5 \<le> content_rows term80x24"
    "five_formats \<noteq> []" "\<not> list_ex is_winch [Read KEY_DOWN, Read KEY_END, Interrupt, Read KEY_UP]"
    by (simp_all add: term80x24_def five_formats_def)
  from viewport_invariant_after_keys [OF h, of "Some (19, 80)" 2] e h
  show ?thesis by simp
qed

section \<open>Keys of the selection loop\<close>

lemma key_up_index:
  "selected_index (key_up st ls) = (if selected_index ls > 0 then selected_index ls - 1 else selected_index ls)"
  "total_formats (key_up st ls) = total_formats ls"
  by (simp_all add: key_up_def update_format_display_fields)

lemma key_down_index:
  "selected_index (key_down st ls) =
     (if selected_index ls < total_formats ls - 1 then selected_index ls + 1 else selected_index ls)"
  "total_formats (key_down st ls) = total_formats ls"
  by (simp_all add: key_down_def update_format_display_fields)

lemma switch_nav_keys:
  "selection_switch st ls KEY_UP inp = (key_up st ls, inp, True, None)"
  "selection_switch st ls KEY_DOWN inp = (key_down st ls, inp, True, None)"
  "selection_switch st ls KEY_PPAGE inp = (key_ppage st ls, inp, True, None)"
  "selection_switch st ls KEY_NPAGE inp = (key_npage st ls, inp, True, None)"
  "selection_switch st ls KEY_HOME inp = (key_home st ls, inp, True, None)"
  "selection_switch st ls KEY_END inp = (key_end st ls, inp, True, None)"
  by (simp_all add: selection_switch_def key_codes)

lemma key_page_index:
  "selected_index (key_ppage st ls) =
     (if selected_index ls - visible_lines ls < 0 then 0 else selected_index ls - visible_lines ls)"
  "selected_index (key_npage st ls) =
     (if selected_index ls + visible_lines ls \<ge> total_formats ls then total_formats ls - 1
      else selected_index ls + visible_lines ls)"
  "selected_index (key_home st ls) = 0"
  "selected_index (key_end st ls) = total_formats ls - 1"
  "total_formats (key_ppage st ls) = total_formats ls"
  "total_formats (key_npage st ls) = total_formats ls"
  "total_formats (key_home st ls) = total_formats ls"
  "total_formats (key_end st ls) = total_formats ls"
  by (simp_all add: key_ppage_def key_npage_def key_home_def key_end_def Let_def
      update_format_display_fields)


lemma ui_handle_resize_latches:
  assumes "ui_handle_resize st scr = Result st1"
  shows "shutdown_pending st1 = shutdown_pending st" "ncurses_available st1 = ncurses_available st"
  using assms by (auto simp: ui_handle_resize_def split: if_splits option.splits)

text \<open>
  Claim C4.  In one pass of the loop that reads the escape byte 27: when the timed read
  that follows returns \<^verbatim>\<open>ERR\<close> (nothing arrived within 100 ms) the flag
  \<^verbatim>\<open>selecting\<close> is cleared and the call returns \<^verbatim>\<open>NULL\<close>, the cancelled session;
  the bytes \<^verbatim>\<open>[\<close> and \<^verbatim>\<open>A\<close> do what \<^verbatim>\<open>KEY_UP\<close> does (the index goes down by one when
  it is positive), the flag stays set and the loop goes on with the rest of the input;
  any other byte after the escape byte is consumed, nothing changes, and the loop goes
  on with the rest of the input.  \<open>st1\<close> is the terminal state that
  \<^verbatim>\<open>ui_handle_resize\<close> leaves at the head of the pass, which is \<open>st\<close> when no resize
  is pending.
\<close>

theorem escape_disambiguation:
  assumes "c \<noteq> ERR" "c \<noteq> ord CHR ''[''" "\<not> shutdown_pending st"
    and "ui_handle_resize st scr = Result st1"
  shows "selection_switch st ls 27 [] = (ls, [], False, None)
     \<and> selection_switch st ls 27 (ERR # rest) = (ls, rest, False, None)
     \<and> select_loop st scr ls [Read 27] = Returned None (Some ls)
     \<and> select_loop st scr ls (Read 27 # Read ERR # events) = Returned None (Some ls)
     \<and> selection_switch st ls 27 (ord CHR ''['' # ord CHR ''A'' # rest)
           = (key_up st ls, rest, True, None)
     \<and> selection_switch st ls 27 (ord CHR ''['' # ord CHR ''A'' # rest)
           = selection_switch st ls KEY_UP rest
     \<and> selected_index (key_up st ls) =
           (if selected_index ls > 0 then selected_index ls - 1 else selected_index ls)
     \<and> select_loop st scr ls (Read 27 # Read (ord CHR ''['') # Read (ord CHR ''A'') # events)
           = select_loop st1 scr (key_up st1 ls) events
     \<and> selection_switch st ls 27 (c # rest) = (ls, rest, True, None)
     \<and> select_loop st scr ls (Read 27 # Read c # events) = select_loop st1 scr ls events"
proof -
  have sw: "\<And>s inp. selection_switch s ls 27 inp =
      (case key_escape s ls inp of (l, r, selecting) \<Rightarrow> (l, r, selecting, None))"
    by (simp add: selection_switch_def key_codes)
  have e1: "\<And>s. key_escape s ls [] = (ls, [], False)"
    "\<And>s rest. key_escape s ls (ERR # rest) = (ls, rest, False)"
    "\<And>s rest. key_escape s ls (ord CHR ''['' # ord CHR ''A'' # rest) = (key_up s ls, rest, True)"
    by (simp_all add: key_escape_def key_codes)
  have e2: "\<And>s rest. key_escape s ls (c # rest) = (ls, rest, True)"
    using assms(1,2) by (simp add: key_escape_def)
  have up: "selection_switch st ls KEY_UP rest = (key_up st ls, rest, True, None)"
    by (simp add: selection_switch_def)
  have d: "\<And>n. Suc (Suc n) - n = 2" "\<And>n. Suc n - n = 1"
    by simp_all
  have loop: "select_loop st scr ls (Read 27 # Read ERR # events) = Returned None (Some ls)"
    "select_loop st scr ls [Read 27] = Returned None (Some ls)"
    "select_loop st scr ls (Read 27 # Read (ord CHR ''['') # Read (ord CHR ''A'') # events)
           = select_loop st1 scr (key_up st1 ls) events"
    "select_loop st scr ls (Read 27 # Read c # events) = select_loop st1 scr ls events"
    using assms(3)
    by (simp_all add: loop_pass_def assms(4) sw e1 e2 d numeral_2_eq_2 del: of_char_Char)
  show ?thesis
    by (simp add: sw e1 e2 up loop key_up_index del: of_char_Char select_loop.simps)
qed

theorem escape_disambiguation_witness:
  "ord CHR ''x'' \<noteq> ERR \<and> ord CHR ''x'' \<noteq> ord CHR ''['' \<and> \<not> shutdown_pending term80x24
   \<and> ui_handle_resize term80x24 (Some (19, 80)) = Result term80x24
   \<and> select_loop term80x24 (Some (19, 80)) third_selected [Read 27] = Returned None (Some third_selected)
   \<and> selection_switch term80x24 third_selected 27 [ord CHR ''['', ord CHR ''A'', ord CHR ''q'']
       = (third_selected\<lparr>selected_index := 1\<rparr>, [ord CHR ''q''], True, None)
   \<and> selection_switch term80x24 third_selected 27 [ord CHR ''x'', ord CHR ''q'']
       = (third_selected, [ord CHR ''q''], True, None)"
proof -
  have h: "ord CHR ''x'' \<noteq> ERR" "ord CHR ''x'' \<noteq> ord CHR ''[''" "\<not> shutdown_pending term80x24"
    "ui_handle_resize term80x24 (Some (19, 80)) = Result term80x24"
    by (simp_all add: ERR_def term80x24_def ui_handle_resize_def)
  have u: "key_up term80x24 third_selected = third_selected\<lparr>selected_index := 1\<rparr>"
    by (simp add: key_up_def update_format_display_eq third_selected_def main_list_state_eq
        term80x24_def five_formats_def)
  from escape_disambiguation [OF h, of third_selected "[ord CHR ''q'']"] h u
  show ?thesis by simp
qed

text \<open>
  Claim C5, as stated, fails in its second half: the quit key makes the call return
  \<^verbatim>\<open>NULL\<close>, and so does the call on a state without ncurses, which is the error
  return of the operation.  The two results are the same value.
\<close>

theorem selection_result_counterexample:
  "ui_select_format_interactive (Some term80x24) (Some (main_list_state term80x24 five_formats))
       (Some (19, 80)) [Read (ord CHR ''q'')]
     = Returned None (Some (main_list_state term80x24 five_formats))
   \<and> ui_select_format_interactive (Some (term80x24\<lparr>ncurses_available := False\<rparr>))
       (Some (main_list_state term80x24 five_formats)) (Some (19, 80)) [Read (ord CHR ''q'')]
     = Returned None (Some (main_list_state term80x24 five_formats))"
  by (simp add: ui_select_format_interactive_def term80x24_def loop_pass_def ui_handle_resize_def
      selection_switch_def key_codes)

text \<open>
  Claim C5, amended.  Enter (\<^verbatim>\<open>'\n'\<close>, \<^verbatim>\<open>'\r'\<close> or \<^verbatim>\<open>KEY_ENTER\<close>) returns a copy of
  the \<^verbatim>\<open>format_id\<close> string of the entry at \<open>selected_index\<close> when the entry has one.
  The quit keys and a standalone escape return \<^verbatim>\<open>NULL\<close>, which is also what the
  call returns when the state pointer is \<^verbatim>\<open>NULL\<close> or ncurses is not available: the
  result for a cancelled session is the result for a failed call.
\<close>

theorem selection_result:
  assumes "ncurses_available st" "\<not> shutdown_pending st"
    and "ui_handle_resize st scr = Result st1"
    and "json_array_get (formats ls) (selected_index ls) = Some f" "format_id f = Some ident"
    and "enter \<in> {ord CHR 0x0A, ord CHR 0x0D, KEY_ENTER}" "quit \<in> {ord CHR ''q'', ord CHR ''Q''}"
    and "\<not> ncurses_available off"
  shows "ui_select_format_interactive (Some st) (Some ls) scr (Read enter # rest)
           = Returned (Some ident) (Some ls)
     \<and> ui_select_format_interactive (Some st) (Some ls) scr (Read quit # rest)
           = Returned None (Some ls)
     \<and> ui_select_format_interactive (Some st) (Some ls) scr [Read 27] = Returned None (Some ls)
     \<and> ui_select_format_interactive (Some st) (Some ls) scr (Read 27 # Read ERR # rest)
           = Returned None (Some ls)
     \<and> ui_select_format_interactive (Some off) (Some ls) scr events = Returned None (Some ls)
     \<and> ui_select_format_interactive None (Some ls) scr events = Returned None (Some ls)"
proof -
  have en: "\<And>s inp. selection_switch s ls enter inp = (ls, inp, False, Some ident)"
    using assms(4,5,6) by (auto simp: selection_switch_def key_codes key_enter_def)
  have qu: "\<And>s inp. selection_switch s ls quit inp = (ls, inp, False, None)"
    using assms(7) by (auto simp: selection_switch_def key_codes)
  have esc: "\<And>s. selection_switch s ls 27 [] = (ls, [], False, None)"
    "\<And>s inp. selection_switch s ls 27 (ERR # inp) = (ls, inp, False, None)"
    by (simp_all add: selection_switch_def key_escape_def key_codes)
  show ?thesis
    using assms(1,2,8)
    by (simp add: ui_select_format_interactive_def loop_pass_def assms(3) en qu esc)
qed

theorem selection_result_witness:
  "ncurses_available term80x24 \<and> \<not> shutdown_pending term80x24
   \<and> ui_handle_resize term80x24 (Some (19, 80)) = Result term80x24
   \<and> json_array_get (formats third_selected) (selected_index third_selected)
        = Some (fmt ''135'' ''854x480'')
   \<and> format_id (fmt ''135'' ''854x480'') = Some ''135''
   \<and> ord CHR 0x0A \<in> {ord CHR 0x0A, ord CHR 0x0D, KEY_ENTER}
   \<and> ord CHR ''q'' \<in> {ord CHR ''q'', ord CHR ''Q''}
   \<and> \<not> ncurses_available (term80x24\<lparr>ncurses_available := False\<rparr>)
   \<and> ui_select_format_interactive (Some term80x24) (Some third_selected) (Some (19, 80))
        [Read (ord CHR 0x0A)]
        = Returned (Some ''135'') (Some third_selected)
   \<and> ui_select_format_interactive (Some term80x24) (Some third_selected) (Some (19, 80))
        [Read (ord CHR ''q'')]
        = Returned None (Some third_selected)
   \<and> ui_select_format_interactive (Some (term80x24\<lparr>ncurses_available := False\<rparr>))
        (Some third_selected) (Some (19, 80)) [Read (ord CHR 0x0A)]
        = Returned None (Some third_selected)"
proof -
  have h: "ncurses_available term80x24" "\<not> shutdown_pending term80x24"
    "ui_handle_resize term80x24 (Some (19, 80)) = Result term80x24"
    "json_array_get (formats third_selected) (selected_index third_selected)
        = Some (fmt ''135'' ''854x480'')"
    "format_id (fmt ''135'' ''854x480'') = Some ''135''"
    "ord CHR 0x0A \<in> {ord CHR 0x0A, ord CHR 0x0D, KEY_ENTER}"
    "ord CHR ''q'' \<in> {ord CHR ''q'', ord CHR ''Q''}"
    "\<not> ncurses_available (term80x24\<lparr>ncurses_available := False\<rparr>)"
    by (simp_all add: term80x24_def third_selected_def main_list_state_eq five_formats_def
        json_array_get_def fmt_def ui_handle_resize_def)
  from selection_result [OF h, of "[]" "[Read (ord CHR 0x0A)]"] h show ?thesis
    by simp
qed

text \<open>
  Claim C8, as stated, fails for page-up where the viewport line count is negative:
  on a content window of 1 row (\<open>visible_lines = -3\<close>) the key moves the index of a
  two-element list from 0 to 3.
\<close>

theorem navigate_counterexample:
  "selection_switch term80x6 (main_list_state term80x6 two_formats) KEY_PPAGE []
     = (\<lparr>visible_start = 7, visible_lines = - 3, selected_index = 3, total_formats = 2,
         formats = Some two_formats\<rparr>, [], True, None)
   \<and> selected_index (main_list_state term80x6 two_formats) = 0
   \<and> \<not> selected_index (fst (selection_switch term80x6 (main_list_state term80x6 two_formats)
          KEY_PPAGE [])) \<le> total_formats (main_list_state term80x6 two_formats) - 1"
  by (simp add: switch_nav_keys key_ppage_def update_format_display_eq main_list_state_eq
      term80x6_def term80x24_def two_formats_def Let_def)

text \<open>
  Claim C8, amended.  From an index inside \<open>[0, total_formats - 1]\<close>: arrow-down at
  the last index changes nothing in the list state (index and viewport start
  included), as a key code and as the escape sequence, and below the last index it
  adds one; arrow up and down, home and end leave the index inside
  \<open>[0, total_formats - 1]\<close>; page up and page down do so whenever \<open>visible_lines\<close> is
  not negative.
\<close>

theorem navigate_stays_in_range:
  assumes "0 \<le> selected_index ls" "selected_index ls \<le> total_formats ls - 1"
    and "ch \<in> {KEY_UP, KEY_DOWN, KEY_HOME, KEY_END}
         \<or> (ch \<in> {KEY_PPAGE, KEY_NPAGE} \<and> 0 \<le> visible_lines ls)"
  shows "(if selected_index ls = total_formats ls - 1
          then selection_switch st ls KEY_DOWN inp = (ls, inp, True, None)
             \<and> selection_switch st ls 27 (ord CHR ''['' # ord CHR ''B'' # inp) = (ls, inp, True, None)
          else selected_index (fst (selection_switch st ls KEY_DOWN inp)) = selected_index ls + 1)
     \<and> 0 \<le> selected_index (fst (selection_switch st ls ch inp))
     \<and> selected_index (fst (selection_switch st ls ch inp))
          \<le> total_formats (fst (selection_switch st ls ch inp)) - 1
     \<and> total_formats (fst (selection_switch st ls ch inp)) = total_formats ls"
proof -
  have esc: "selection_switch st ls 27 (ord CHR ''['' # ord CHR ''B'' # inp)
      = (key_down st ls, inp, True, None)"
    by (simp add: selection_switch_def key_escape_def key_codes)
  have last: "selected_index ls = total_formats ls - 1 \<Longrightarrow> key_down st ls = ls"
    by (simp add: key_down_def)
  have down: "(if selected_index ls = total_formats ls - 1
          then selection_switch st ls KEY_DOWN inp = (ls, inp, True, None)
             \<and> selection_switch st ls 27 (ord CHR ''['' # ord CHR ''B'' # inp) = (ls, inp, True, None)
          else selected_index (fst (selection_switch st ls KEY_DOWN inp)) = selected_index ls + 1)"
    using assms(1,2) last by (simp add: esc switch_nav_keys key_down_index del: of_char_Char)
  from assms(3) consider "ch = KEY_UP" | "ch = KEY_DOWN" | "ch = KEY_HOME" | "ch = KEY_END"
    | "ch = KEY_PPAGE" "0 \<le> visible_lines ls" | "ch = KEY_NPAGE" "0 \<le> visible_lines ls"
    by auto
  then have "0 \<le> selected_index (fst (selection_switch st ls ch inp))
     \<and> selected_index (fst (selection_switch st ls ch inp))
          \<le> total_formats (fst (selection_switch st ls ch inp)) - 1
     \<and> total_formats (fst (selection_switch st ls ch inp)) = total_formats ls"
    using assms(1,2)
    by cases (simp_all add: switch_nav_keys key_up_index key_down_index key_page_index)
  with down show ?thesis by blast
qed

theorem navigate_stays_in_range_witness:
  "0 \<le> selected_index (third_selected\<lparr>selected_index := 4\<rparr>)
   \<and> selected_index (third_selected\<lparr>selected_index := 4\<rparr>)
        \<le> total_formats (third_selected\<lparr>selected_index := 4\<rparr>) - 1
   \<and> KEY_NPAGE \<in> {KEY_PPAGE, KEY_NPAGE} \<and> 0 \<le> visible_lines (third_selected\<lparr>selected_index := 4\<rparr>)
   \<and> selection_switch term80x24 (third_selected\<lparr>selected_index := 4\<rparr>) KEY_DOWN []
        = (third_selected\<lparr>selected_index := 4\<rparr>, [], True, None)
   \<and> selected_index (fst (selection_switch term80x24 (third_selected\<lparr>selected_index := 4\<rparr>)
        KEY_NPAGE [])) \<le> 4"
proof -
  have h: "0 \<le> selected_index (third_selected\<lparr>selected_index := 4\<rparr>)"
    "selected_index (third_selected\<lparr>selected_index := 4\<rparr>)
        \<le> total_formats (third_selected\<lparr>selected_index := 4\<rparr>) - 1"
    and v: "KEY_NPAGE \<in> {KEY_PPAGE, KEY_NPAGE}"
      "0 \<le> visible_lines (third_selected\<lparr>selected_index := 4\<rparr>)"
    and e: "selected_index (third_selected\<lparr>selected_index := 4\<rparr>)
        = total_formats (third_selected\<lparr>selected_index := 4\<rparr>) - 1"
      "total_formats (third_selected\<lparr>selected_index := 4\<rparr>) = 5"
    by (simp_all add: third_selected_def main_list_state_eq term80x24_def five_formats_def)
  from v have d: "KEY_NPAGE \<in> {KEY_UP, KEY_DOWN, KEY_HOME, KEY_END}
       \<or> (KEY_NPAGE \<in> {KEY_PPAGE, KEY_NPAGE}
           \<and> 0 \<le> visible_lines (third_selected\<lparr>selected_index := 4\<rparr>))"
    by blast
  from navigate_stays_in_range [OF h d, of term80x24 "[]"] h v e
  show ?thesis by simp
qed

end
